theory Spec2Isabelle
  imports Complex_Main "HOL-Library.AList" "HOL-Library.Sublist"
begin

section \<open>Python values and exceptions\<close>

text \<open>
  The converter reads records that \<^verbatim>\<open>json.loads\<close> produced, so a value is what that
  function can return: \<^verbatim>\<open>None\<close>, a \<^verbatim>\<open>bool\<close>, an unbounded \<^verbatim>\<open>int\<close>, a \<^verbatim>\<open>float\<close>, a
  \<^verbatim>\<open>str\<close>, a \<^verbatim>\<open>list\<close> or a \<^verbatim>\<open>dict\<close> with string keys. A dict is an association list
  in insertion order; a lookup takes the first binding of a key.

  A finite float is kept as the rational number it denotes (every finite double is
  one), which is exact for the three things the program does with a float: compare it
  with an integer, truncate it, and look it up among integer keys.
\<close>

datatype pyfloat = Finite rat | NegZero | PosInf | NegInf | NaN

datatype json =
    JNull
  | JBool bool
  | JInt int
  | JFloat pyfloat
  | JStr string
  | JArr "json list"
  | JObj "(string \<times> json) list"

type_synonym pydict = "(string \<times> json) list"

text \<open>
  The exceptions the program can meet. All but \<open>KeyboardInterrupt\<close> are subclasses of
  Python's \<^verbatim>\<open>Exception\<close>, which is what \<^verbatim>\<open>except Exception\<close> catches.
\<close>

datatype exn =
    KeyError
  | TypeError
  | ValueError
  | OverflowError
  | AttributeError
  | JSONDecodeError
  | OSError
  | KeyboardInterrupt

fun is_Exception :: "exn \<Rightarrow> bool" where
  "is_Exception KeyboardInterrupt = False"
| "is_Exception _ = True"

text \<open>Sequencing of computations that may raise: the first exception wins.\<close>

definition exn_bind :: "exn + 'a \<Rightarrow> ('a \<Rightarrow> exn + 'b) \<Rightarrow> exn + 'b" where
  "exn_bind m f = (case m of Inl e \<Rightarrow> Inl e | Inr x \<Rightarrow> f x)"

text \<open>
  The parts of the Python library whose results the program only passes on are
  parameters of the model: \<^verbatim>\<open>json.loads\<close> on one line (\<open>None\<close> is a
  \<^verbatim>\<open>JSONDecodeError\<close>), \<^verbatim>\<open>json.dump\<close>'s text for a value, \<^verbatim>\<open>int\<close> on a string
  (\<open>None\<close> is a \<^verbatim>\<open>ValueError\<close>), and \<^verbatim>\<open>str\<close> on a float, a list or a dict.
\<close>

record pylib =
  json_loads :: "string \<Rightarrow> json option"
  json_dump :: "json \<Rightarrow> string"
  int_of_str :: "string \<Rightarrow> int option"
  repr_of :: "json \<Rightarrow> string"

subsection \<open>Built-in operations\<close>

text \<open>\<^verbatim>\<open>d[k]\<close> on a dict: a missing key raises \<^verbatim>\<open>KeyError\<close>.\<close>

definition getitem :: "pydict \<Rightarrow> string \<Rightarrow> exn + json" where
  "getitem d k = (case map_of d k of None \<Rightarrow> Inl KeyError | Some v \<Rightarrow> Inr v)"

text \<open>\<^verbatim>\<open>d.get(k, default)\<close> on a dict.\<close>

definition dict_get :: "pydict \<Rightarrow> string \<Rightarrow> json \<Rightarrow> json" where
  "dict_get d k dflt = (case map_of d k of None \<Rightarrow> dflt | Some v \<Rightarrow> v)"

text \<open>
  \<^verbatim>\<open>v[k]\<close> with a string \<open>k\<close> on any value: only a dict can be indexed by a string.
\<close>

fun subscript :: "json \<Rightarrow> string \<Rightarrow> exn + json" where
  "subscript (JObj d) k = getitem d k"
| "subscript _ k = Inl TypeError"

text \<open>\<^verbatim>\<open>float.__trunc__\<close>: rounding towards zero.\<close>

definition trunc_rat :: "rat \<Rightarrow> int" where
  "trunc_rat q = (if 0 \<le> q then \<lfloor>q\<rfloor> else \<lceil>q\<rceil>)"

text \<open>\<^verbatim>\<open>int(v)\<close>.\<close>

fun py_int :: "pylib \<Rightarrow> json \<Rightarrow> exn + int" where
  "py_int L (JInt i) = Inr i"
| "py_int L (JBool b) = Inr (if b then 1 else 0)"
| "py_int L (JFloat (Finite q)) = Inr (trunc_rat q)"
| "py_int L (JFloat NegZero) = Inr 0"
| "py_int L (JFloat PosInf) = Inl OverflowError"
| "py_int L (JFloat NegInf) = Inl OverflowError"
| "py_int L (JFloat NaN) = Inl ValueError"
| "py_int L (JStr s) = (case int_of_str L s of None \<Rightarrow> Inl ValueError | Some i \<Rightarrow> Inr i)"
| "py_int L JNull = Inl TypeError"
| "py_int L (JArr xs) = Inl TypeError"
| "py_int L (JObj d) = Inl TypeError"

text \<open>\<^verbatim>\<open>v > 0\<close>: numbers compare, anything else raises \<^verbatim>\<open>TypeError\<close>.\<close>

fun py_gt0 :: "json \<Rightarrow> exn + bool" where
  "py_gt0 (JInt i) = Inr (0 < i)"
| "py_gt0 (JBool b) = Inr b"
| "py_gt0 (JFloat (Finite q)) = Inr (0 < q)"
| "py_gt0 (JFloat PosInf) = Inr True"
| "py_gt0 (JFloat NegZero) = Inr False"
| "py_gt0 (JFloat NegInf) = Inr False"
| "py_gt0 (JFloat NaN) = Inr False"
| "py_gt0 _ = Inl TypeError"

text \<open>The decimal numeral of an integer, as \<^verbatim>\<open>str\<close> prints it.\<close>

fun digits :: "nat \<Rightarrow> string" where
  "digits n = (if n < 10 then [char_of (48 + n)] else digits (n div 10) @ [char_of (48 + n mod 10)])"

declare digits.simps [simp del]

definition str_of_int :: "int \<Rightarrow> string" where
  "str_of_int i = (if i < 0 then CHR ''-'' # digits (nat (- i)) else digits (nat i))"

text \<open>\<^verbatim>\<open>str(v)\<close>.\<close>

fun py_str :: "pylib \<Rightarrow> json \<Rightarrow> string" where
  "py_str L (JStr s) = s"
| "py_str L (JInt i) = str_of_int i"
| "py_str L (JBool b) = (if b then ''True'' else ''False'')"
| "py_str L JNull = ''None''"
| "py_str L v = repr_of L v"

text \<open>
  \<^verbatim>\<open>v == k\<close> for an integer \<open>k\<close>: \<^verbatim>\<open>True == 1\<close>, \<^verbatim>\<open>2.0 == 2\<close>; a value that is not
  a number equals no integer.
\<close>

fun eq_int :: "json \<Rightarrow> int \<Rightarrow> bool" where
  "eq_int (JInt i) k = (i = k)"
| "eq_int (JBool b) k = ((if b then 1 else 0) = k)"
| "eq_int (JFloat (Finite q)) k = (q = of_int k)"
| "eq_int (JFloat NegZero) k = (k = 0)"
| "eq_int _ k = False"

text \<open>\<^verbatim>\<open>v == s\<close> for a string \<open>s\<close>.\<close>

fun eq_str :: "json \<Rightarrow> string \<Rightarrow> bool" where
  "eq_str (JStr t) s = (t = s)"
| "eq_str _ s = False"

text \<open>A list or a dict cannot be hashed, so it cannot be looked up in a dict.\<close>

fun hashable :: "json \<Rightarrow> bool" where
  "hashable (JArr xs) = False"
| "hashable (JObj d) = False"
| "hashable _ = True"

text \<open>
  \<^verbatim>\<open>v in table\<close> and \<^verbatim>\<open>table[v]\<close> for a dict with integer keys: the key is hashed
  (\<^verbatim>\<open>TypeError\<close> when it cannot be) and then compared with \<^verbatim>\<open>==\<close>.
\<close>

definition table_contains :: "(int \<times> string) list \<Rightarrow> json \<Rightarrow> exn + bool" where
  "table_contains table v =
     (if hashable v then Inr (find (\<lambda>(k, l). eq_int v k) table \<noteq> None) else Inl TypeError)"

definition table_getitem :: "(int \<times> string) list \<Rightarrow> json \<Rightarrow> exn + string" where
  "table_getitem table v =
     (if hashable v
      then (case find (\<lambda>(k, l). eq_int v k) table of
              None \<Rightarrow> Inl KeyError
            | Some (k, l) \<Rightarrow> Inr l)
      else Inl TypeError)"

section \<open>The converter\<close>

definition CLEAR_TYPE_MAP :: "(int \<times> string) list" where
  "CLEAR_TYPE_MAP =
     [(1, ''FAILED''),
      (2, ''CLEAR''),
      (3, ''EXCESSIVE CLEAR''),
      (4, ''ULTIMATE CHAIN''),
      (5, ''PERFECT ULTIMATE CHAIN''),
      (6, ''MAXXIVE CLEAR'')]"

definition DIFFICULTY_MAP :: "(int \<times> string) list" where
  "DIFFICULTY_MAP =
     [(0, ''NOV''),
      (1, ''ADV''),
      (2, ''EXH''),
      (3, ''ANY_INF''),
      (4, ''MXM'')]"

text \<open>
  The \<^verbatim>\<open>exscore\<close> line: the condition \<^verbatim>\<open>play.get("exscore", 0) > 0\<close> is evaluated first,
  and only when it holds is \<^verbatim>\<open>int(play["exscore"])\<close>.
\<close>

definition read_exscore :: "pylib \<Rightarrow> pydict \<Rightarrow> exn + int option" where
  "read_exscore L play =
     exn_bind (py_gt0 (dict_get play ''exscore'' (JInt 0))) (\<lambda>positive.
       if positive
       then exn_bind (getitem play ''exscore'') (\<lambda>v.
            exn_bind (py_int L v) (\<lambda>e. Inr (Some e)))
       else Inr None)"

text \<open>
  The last step: the optional block is added to the output when \<open>exscore\<close> is not
  \<^verbatim>\<open>None\<close> and positive. \<^verbatim>\<open>output["optional"] = {}\<close> binds the key, and
  \<^verbatim>\<open>output["optional"]["exScore"] = int(exscore)\<close> reads that dict back and stores
  into it.
\<close>

definition attach_optional :: "int option \<Rightarrow> pydict \<Rightarrow> exn + pydict" where
  "attach_optional exscore output =
     (case exscore of
        None \<Rightarrow> Inr output
      | Some e \<Rightarrow>
          if 0 < e
          then (let output1 = AList.update ''optional'' (JObj []) output
                in exn_bind (getitem output1 ''optional'') (\<lambda>block.
                     case block of
                       JObj d \<Rightarrow>
                         Inr (AList.update ''optional'' (JObj (AList.update ''exScore'' (JInt e) d)) output1)
                     | _ \<Rightarrow> Inl TypeError))
          else Inr output)"

text \<open>
  The body of the \<^verbatim>\<open>try\<close> block of \<^verbatim>\<open>convert_play\<close>, statement by statement. The
  result \<open>Inr None\<close> is the \<^verbatim>\<open>return None\<close> of an unknown code. The warning for an
  unknown difficulty formats \<^verbatim>\<open>play['difficulty']\<close>, which raises \<^verbatim>\<open>KeyError\<close> when
  the record has no such key.
\<close>

definition convert_play_body :: "pylib \<Rightarrow> pydict \<Rightarrow> exn + pydict option" where
  "convert_play_body L play =
     exn_bind (getitem play ''score'') (\<lambda>score_v.
     exn_bind (py_int L score_v) (\<lambda>score.
     exn_bind (read_exscore L play) (\<lambda>exscore.
     exn_bind (getitem play ''mid'') (\<lambda>mid.
     let song_id = py_str L mid in
     exn_bind (getitem play ''createdAt'') (\<lambda>created_at.
     exn_bind (subscript created_at ''$$date'') (\<lambda>date.
     exn_bind (py_int L date) (\<lambda>time_achieved.
     exn_bind (getitem play ''clear'') (\<lambda>clear_type.
     exn_bind (table_contains CLEAR_TYPE_MAP clear_type) (\<lambda>known_clear.
     if \<not> known_clear then Inr None
     else
     exn_bind (table_getitem CLEAR_TYPE_MAP clear_type) (\<lambda>lamp.
     exn_bind (getitem play ''type'') (\<lambda>difficulty_type.
     exn_bind (table_contains DIFFICULTY_MAP difficulty_type) (\<lambda>known_difficulty.
     if \<not> known_difficulty then exn_bind (getitem play ''difficulty'') (\<lambda>shown. Inr None)
     else
     exn_bind (table_getitem DIFFICULTY_MAP difficulty_type) (\<lambda>difficulty.
     let output =
       [(''matchType'', JStr ''sdvxInGameID''),
        (''identifier'', JStr song_id),
        (''score'', JInt score),
        (''lamp'', JStr lamp),
        (''difficulty'', JStr difficulty),
        (''timeAchieved'', JInt time_achieved)]
     in exn_bind (attach_optional exscore output) (\<lambda>output. Inr (Some output)))))))))))))))"

text \<open>
  \<^verbatim>\<open>convert_play\<close>: the body inside \<^verbatim>\<open>try ... except Exception\<close>. An exception that is
  an \<^verbatim>\<open>Exception\<close> is logged and becomes \<^verbatim>\<open>return None\<close>; any other would leave the
  function.
\<close>

definition convert_play :: "pylib \<Rightarrow> pydict \<Rightarrow> exn + pydict option" where
  "convert_play L play =
     (case convert_play_body L play of
        Inl e \<Rightarrow> if is_Exception e then Inr None else Inl e
      | Inr r \<Rightarrow> Inr r)"

section \<open>Files, the loader and the user filter\<close>

text \<open>
  The file system as the program sees it: the text of each file that can be opened
  and read, and the paths that can be opened for writing.
\<close>

record world =
  files :: "string \<Rightarrow> string option"
  writable :: "string \<Rightarrow> bool"

text \<open>
  Iterating over a file opened in text mode yields its lines, each with its line end;
  every line end (\<^verbatim>\<open>\n\<close>, \<^verbatim>\<open>\r\n\<close> or \<^verbatim>\<open>\r\<close>) is read as \<^verbatim>\<open>\n\<close>. The first
  argument holds the line being read.
\<close>

fun split_lines :: "string \<Rightarrow> string \<Rightarrow> string list" where
  "split_lines cur [] = (if cur = [] then [] else [cur])"
| "split_lines cur [c] =
     (if c = CHR 0x0A \<or> c = CHR 0x0D then [cur @ [CHR 0x0A]] else [cur @ [c]])"
| "split_lines cur (c # d # cs) =
     (if c = CHR 0x0D \<and> d = CHR 0x0A then (cur @ [CHR 0x0A]) # split_lines [] cs
      else if c = CHR 0x0A \<or> c = CHR 0x0D then (cur @ [CHR 0x0A]) # split_lines [] (d # cs)
      else split_lines (cur @ [c]) (d # cs))"

definition text_lines :: "string \<Rightarrow> string list" where
  "text_lines text = split_lines [] text"

text \<open>\<^verbatim>\<open>db_path.open("r")\<close> and the iteration over the file.\<close>

definition open_read :: "world \<Rightarrow> string \<Rightarrow> exn + string list" where
  "open_read w path = (case files w path of None \<Rightarrow> Inl OSError | Some text \<Rightarrow> Inr (text_lines text))"

text \<open>\<^verbatim>\<open>[json.loads(line) for line in db_file]\<close>: the first line that does not parse raises.\<close>

fun parse_lines :: "pylib \<Rightarrow> string list \<Rightarrow> exn + json list" where
  "parse_lines L [] = Inr []"
| "parse_lines L (line # rest) =
     (case json_loads L line of
        None \<Rightarrow> Inl JSONDecodeError
      | Some v \<Rightarrow> exn_bind (parse_lines L rest) (\<lambda>vs. Inr (v # vs)))"

text \<open>
  \<^verbatim>\<open>[play for play in data_points if play.get("collection", None) == "music"]\<close>: only a
  dict has a \<^verbatim>\<open>get\<close> method, so any other value raises \<^verbatim>\<open>AttributeError\<close>.
\<close>

fun music_plays :: "json list \<Rightarrow> exn + pydict list" where
  "music_plays [] = Inr []"
| "music_plays (JObj play # rest) =
     exn_bind (music_plays rest) (\<lambda>plays.
       Inr (if eq_str (dict_get play ''collection'' JNull) ''music'' then play # plays else plays))"
| "music_plays (v # rest) = Inl AttributeError"

text \<open>
  \<^verbatim>\<open>load_plays_database\<close>: both \<^verbatim>\<open>except\<close> clauses log and raise the exception again.
\<close>

definition load_plays_database :: "pylib \<Rightarrow> world \<Rightarrow> string \<Rightarrow> exn + pydict list" where
  "load_plays_database L w db_path =
     exn_bind (open_read w db_path) (\<lambda>db_file.
     exn_bind (parse_lines L db_file) (\<lambda>data_points.
     music_plays data_points))"

definition filter_user_scores :: "pydict list \<Rightarrow> string \<Rightarrow> pydict list" where
  "filter_user_scores scores profile_id =
     [point \<leftarrow> scores.
        eq_str (dict_get point ''__refid'' JNull) profile_id \<and>
        eq_str (dict_get point ''__s'' JNull) ''plugins_profile'']"

section \<open>The orchestration\<close>

record config =
  DATABASE_PATH :: string
  ASPHYXIA_PROFILE_ID :: string
  PRESERVE_FAILS :: bool
  OUTPUT_FILE :: string

definition source_config :: config where
  "source_config =
     \<lparr>DATABASE_PATH = ''sdvx@asphyxia.db'',
      ASPHYXIA_PROFILE_ID = ''ACA11374C2D83E9A'',
      PRESERVE_FAILS = True,
      OUTPUT_FILE = ''output.json''\<rparr>"

definition META :: pydict where
  "META = [(''game'', JStr ''sdvx''), (''playtype'', JStr ''Single''), (''service'', JStr ''Asphyxia'')]"

text \<open>
  The loop of \<^verbatim>\<open>main\<close> over the user's plays; the last argument is \<^verbatim>\<open>score_results\<close> so
  far. \<^verbatim>\<open>if score_info:\<close> is false for \<^verbatim>\<open>None\<close> and for an empty dict; the test
  \<^verbatim>\<open>PRESERVE_FAILS or score_info["lamp"] != "FAILED"\<close> reads the lamp only when the flag is
  off.
\<close>

fun convert_each :: "pylib \<Rightarrow> bool \<Rightarrow> pydict list \<Rightarrow> pydict list \<Rightarrow> exn + pydict list" where
  "convert_each L preserve_fails [] score_results = Inr score_results"
| "convert_each L preserve_fails (play # rest) score_results =
     exn_bind (convert_play L play) (\<lambda>score_info.
       case score_info of
         None \<Rightarrow> convert_each L preserve_fails rest score_results
       | Some info \<Rightarrow>
           if info = [] then convert_each L preserve_fails rest score_results
           else
             exn_bind
               (if preserve_fails then Inr True
                else exn_bind (getitem info ''lamp'') (\<lambda>lamp. Inr (\<not> eq_str lamp ''FAILED'')))
               (\<lambda>keep.
                  convert_each L preserve_fails rest
                    (if keep then score_results @ [info] else score_results)))"

text \<open>Lines 139 to 151 of \<^verbatim>\<open>main\<close>: load, filter, convert each play.\<close>

definition main_scores :: "pylib \<Rightarrow> config \<Rightarrow> world \<Rightarrow> exn + pydict list" where
  "main_scores L cfg w =
     exn_bind (load_plays_database L w (DATABASE_PATH cfg)) (\<lambda>data_points.
     let plays_for_user = filter_user_scores data_points (ASPHYXIA_PROFILE_ID cfg)
     in convert_each L (PRESERVE_FAILS cfg) plays_for_user [])"

text \<open>
  \<^verbatim>\<open>save_results\<close>: the file is opened for writing and the text of the result written
  to it; a failure to open it is logged and goes no further.
\<close>

definition save_results :: "pylib \<Rightarrow> json \<Rightarrow> string \<Rightarrow> world \<Rightarrow> world" where
  "save_results L results output_path w =
     (if writable w output_path
      then w\<lparr>files := (files w)(output_path \<mapsto> json_dump L results)\<rparr>
      else w)"

text \<open>\<^verbatim>\<open>main\<close>: an exception of the load leaves it before anything is written.\<close>

definition main :: "pylib \<Rightarrow> config \<Rightarrow> world \<Rightarrow> exn + world" where
  "main L cfg w =
     exn_bind (main_scores L cfg w) (\<lambda>score_results.
     let result = JObj [(''meta'', JObj META), (''scores'', JArr (map JObj score_results))]
     in Inr (save_results L result (OUTPUT_FILE cfg) w))"

section \<open>The converter on a store of dict objects\<close>

text \<open>
  \<^verbatim>\<open>convert_play\<close> receives a reference to the caller's dict, so what it may change is
  seen by the caller. Here the dicts live in a store, addressed by their position; a
  program takes the store, returns a result or an exception, and returns the store it
  leaves. Creating a dict appends it to the store; \<^verbatim>\<open>d[k] = v\<close> replaces the dict at
  \<open>d\<close>'s address. The values of a dict, a nested dict among them, are part of the dict.
\<close>

type_synonym store = "pydict list"

type_synonym 'a prog = "store \<Rightarrow> (exn + 'a) \<times> store"

definition st_bind :: "'a prog \<Rightarrow> ('a \<Rightarrow> 'b prog) \<Rightarrow> 'b prog" where
  "st_bind m f s = (case m s of (Inl e, s') \<Rightarrow> (Inl e, s') | (Inr x, s') \<Rightarrow> f x s')"

text \<open>An expression that reads and writes no dict; it may raise.\<close>

definition st_eval :: "exn + 'a \<Rightarrow> 'a prog" where
  "st_eval r s = (r, s)"

text \<open>\<^verbatim>\<open>d[k]\<close>, \<^verbatim>\<open>d.get(k, default)\<close>, a new dict, and \<^verbatim>\<open>d[k] = v\<close> for the dict at address \<open>d\<close>.\<close>

definition st_getitem :: "nat \<Rightarrow> string \<Rightarrow> json prog" where
  "st_getitem d k s = (getitem (s ! d) k, s)"

definition st_get :: "nat \<Rightarrow> string \<Rightarrow> json \<Rightarrow> json prog" where
  "st_get d k dflt s = (Inr (dict_get (s ! d) k dflt), s)"

definition st_new_dict :: "pydict \<Rightarrow> nat prog" where
  "st_new_dict items s = (Inr (length s), s @ [items])"

definition st_setitem :: "nat \<Rightarrow> string \<Rightarrow> json \<Rightarrow> unit prog" where
  "st_setitem d k v s = (Inr (), s[d := AList.update k v (s ! d)])"

text \<open>The statements of \<^verbatim>\<open>convert_play\<close> in the order of the source, on the store.\<close>

definition st_read_exscore :: "pylib \<Rightarrow> nat \<Rightarrow> int option prog" where
  "st_read_exscore L play =
     st_bind (st_get play ''exscore'' (JInt 0)) (\<lambda>shown.
     st_bind (st_eval (py_gt0 shown)) (\<lambda>positive.
       if positive
       then st_bind (st_getitem play ''exscore'') (\<lambda>v.
            st_bind (st_eval (py_int L v)) (\<lambda>e. st_eval (Inr (Some e))))
       else st_eval (Inr None)))"

definition st_attach_optional :: "int option \<Rightarrow> nat \<Rightarrow> unit prog" where
  "st_attach_optional exscore output =
     (case exscore of
        None \<Rightarrow> st_eval (Inr ())
      | Some e \<Rightarrow>
          if 0 < e
          then st_bind (st_setitem output ''optional'' (JObj [])) (\<lambda>done1.
               st_bind (st_getitem output ''optional'') (\<lambda>block.
                 case block of
                   JObj d \<Rightarrow>
                     st_setitem output ''optional'' (JObj (AList.update ''exScore'' (JInt e) d))
                 | _ \<Rightarrow> st_eval (Inl TypeError)))
          else st_eval (Inr ()))"

definition st_convert_play_body :: "pylib \<Rightarrow> nat \<Rightarrow> nat option prog" where
  "st_convert_play_body L play =
     st_bind (st_getitem play ''score'') (\<lambda>score_v.
     st_bind (st_eval (py_int L score_v)) (\<lambda>score.
     st_bind (st_read_exscore L play) (\<lambda>exscore.
     st_bind (st_getitem play ''mid'') (\<lambda>mid.
     let song_id = py_str L mid in
     st_bind (st_getitem play ''createdAt'') (\<lambda>created_at.
     st_bind (st_eval (subscript created_at ''$$date'')) (\<lambda>date.
     st_bind (st_eval (py_int L date)) (\<lambda>time_achieved.
     st_bind (st_getitem play ''clear'') (\<lambda>clear_type.
     st_bind (st_eval (table_contains CLEAR_TYPE_MAP clear_type)) (\<lambda>known_clear.
     if \<not> known_clear then st_eval (Inr None)
     else
     st_bind (st_eval (table_getitem CLEAR_TYPE_MAP clear_type)) (\<lambda>lamp.
     st_bind (st_getitem play ''type'') (\<lambda>difficulty_type.
     st_bind (st_eval (table_contains DIFFICULTY_MAP difficulty_type)) (\<lambda>known_difficulty.
     if \<not> known_difficulty
     then st_bind (st_getitem play ''difficulty'') (\<lambda>shown. st_eval (Inr None))
     else
     st_bind (st_eval (table_getitem DIFFICULTY_MAP difficulty_type)) (\<lambda>difficulty.
     st_bind
       (st_new_dict
          [(''matchType'', JStr ''sdvxInGameID''),
           (''identifier'', JStr song_id),
           (''score'', JInt score),
           (''lamp'', JStr lamp),
           (''difficulty'', JStr difficulty),
           (''timeAchieved'', JInt time_achieved)]) (\<lambda>output.
     st_bind (st_attach_optional exscore output) (\<lambda>done2.
     st_eval (Inr (Some output)))))))))))))))))"

definition st_convert_play :: "pylib \<Rightarrow> nat \<Rightarrow> nat option prog" where
  "st_convert_play L play s =
     (case st_convert_play_body L play s of
        (Inl e, s') \<Rightarrow> if is_Exception e then (Inr None, s') else (Inl e, s')
      | (Inr r, s') \<Rightarrow> (Inr r, s'))"

section \<open>Vocabulary of the statements\<close>

text \<open>
  A computation whose exception, if it raises one, is caught by \<^verbatim>\<open>except Exception\<close>.
\<close>

definition catchable :: "exn + 'a \<Rightarrow> bool" where
  "catchable m = (case m of Inl e \<Rightarrow> is_Exception e | Inr x \<Rightarrow> True)"

text \<open>
  The record holds the code \<open>c\<close> in a field: the field is there and its value equals
  the integer \<open>c\<close> as Python compares numbers (so \<^verbatim>\<open>2.0\<close> holds the code 2, and
  \<^verbatim>\<open>True\<close> the code 1).
\<close>

definition has_code :: "pydict \<Rightarrow> string \<Rightarrow> int \<Rightarrow> bool" where
  "has_code play field c = (case map_of play field of None \<Rightarrow> False | Some v \<Rightarrow> eq_int v c)"

text \<open>
  The score records that \<open>convert_play\<close> returns for a list of plays, in the order of the
  plays; a play it returns \<^verbatim>\<open>None\<close> for leaves nothing.
\<close>

definition converted :: "pylib \<Rightarrow> pydict list \<Rightarrow> pydict list" where
  "converted L plays =
     List.map_filter
       (\<lambda>play. case convert_play L play of Inr (Some info) \<Rightarrow> Some info | _ \<Rightarrow> None) plays"

text \<open>A score record whose lamp is FAILED.\<close>

definition failed_lamp :: "pydict \<Rightarrow> bool" where
  "failed_lamp info = (map_of info ''lamp'' = Some (JStr ''FAILED''))"

text \<open>A parsed value that is a JSON object, and a record of the category \<^verbatim>\<open>music\<close>.\<close>

fun is_dict :: "json \<Rightarrow> bool" where
  "is_dict (JObj d) = True"
| "is_dict _ = False"


text \<open>
  The input line of the specification's end-to-end scenario, the dict that
  \<^verbatim>\<open>json.loads\<close> returns for it, and a library that parses this line and nothing else;
  they serve as concrete inputs.
\<close>

definition example_line :: string where
  \<open>example_line = ''{"collection":"music","__refid":"U1","__s":"plugins_profile","score":9000000,"exscore":0,"mid":"42","clear":2,"type":0,"createdAt":{"$$date":1700000000000}}''\<close>

definition example_record :: pydict where
  "example_record =
     [(''collection'', JStr ''music''),
      (''__refid'', JStr ''U1''),
      (''__s'', JStr ''plugins_profile''),
      (''score'', JInt 9000000),
      (''exscore'', JInt 0),
      (''mid'', JStr ''42''),
      (''clear'', JInt 2),
      (''type'', JInt 0),
      (''createdAt'', JObj [(''$$date'', JInt 1700000000000)])]"

definition example_lib :: pylib where
  "example_lib =
     \<lparr>json_loads = [example_line \<mapsto> JObj example_record, ''5'' \<mapsto> JInt 5],
      json_dump = (\<lambda>v. ''{}''),
      int_of_str = Map.empty,
      repr_of = (\<lambda>v. ''?'')\<rparr>"

section \<open>Basic facts\<close>

lemma exn_bind_Inl [simp]: "exn_bind (Inl e) f = Inl e"
  by (simp add: exn_bind_def)

lemma exn_bind_Inr [simp]: "exn_bind (Inr x) f = f x"
  by (simp add: exn_bind_def)

lemma exn_bind_eq_Inr: "exn_bind m f = Inr y \<longleftrightarrow> (\<exists>x. m = Inr x \<and> f x = Inr y)"
  by (cases m) simp_all

lemma exn_bind_eq_Inl: "exn_bind m f = Inl e \<longleftrightarrow> m = Inl e \<or> (\<exists>x. m = Inr x \<and> f x = Inl e)"
  by (cases m) simp_all

lemma catchable_Inr [simp]: "catchable (Inr x)"
  by (simp add: catchable_def)

lemma catchable_Inl [simp]: "catchable (Inl e) = is_Exception e"
  by (simp add: catchable_def)

lemma catchable_bind:
  "catchable (exn_bind m f) \<longleftrightarrow> catchable m \<and> (\<forall>x. m = Inr x \<longrightarrow> catchable (f x))"
  by (cases m) simp_all

lemma catchable_getitem [simp]: "catchable (getitem d k)"
  by (simp add: getitem_def split: option.split)

lemma catchable_subscript [simp]: "catchable (subscript v k)"
  by (cases v) simp_all

lemma catchable_py_int [simp]: "catchable (py_int L v)"
  by (induction L v rule: py_int.induct) (simp_all split: option.split)

lemma catchable_py_gt0 [simp]: "catchable (py_gt0 v)"
  by (induction v rule: py_gt0.induct) simp_all

lemma catchable_table_contains [simp]: "catchable (table_contains t v)"
  by (simp add: table_contains_def)

lemma catchable_table_getitem [simp]: "catchable (table_getitem t v)"
  by (simp add: table_getitem_def split: option.split)

lemma catchable_read_exscore [simp]: "catchable (read_exscore L play)"
  by (simp add: read_exscore_def catchable_bind)

lemma catchable_attach_optional [simp]: "catchable (attach_optional e out)"
  by (simp add: attach_optional_def Let_def catchable_bind split: option.split json.split)

lemma catchable_convert_play_body: "catchable (convert_play_body L play)"
  by (simp add: convert_play_body_def Let_def catchable_bind)

lemma convert_play_never_raises: "\<exists>r. convert_play L play = Inr r"
  using catchable_convert_play_body [of L play]
  by (cases "convert_play_body L play") (simp_all add: convert_play_def)

lemma convert_play_caught: "convert_play_body L play = Inl e \<Longrightarrow> convert_play L play = Inr None"
  using catchable_convert_play_body [of L play]
  by (simp add: convert_play_def)

lemma convert_play_body_SomeE:
  assumes "convert_play_body L play = Inr (Some out)"
  obtains score_v score exscore mid created_at date time_achieved clear_type lamp
    difficulty_type difficulty
  where "getitem play ''score'' = Inr score_v" "py_int L score_v = Inr score"
    "read_exscore L play = Inr exscore" "getitem play ''mid'' = Inr mid"
    "getitem play ''createdAt'' = Inr created_at"
    "subscript created_at ''$$date'' = Inr date" "py_int L date = Inr time_achieved"
    "getitem play ''clear'' = Inr clear_type"
    "table_contains CLEAR_TYPE_MAP clear_type = Inr True"
    "table_getitem CLEAR_TYPE_MAP clear_type = Inr lamp"
    "getitem play ''type'' = Inr difficulty_type"
    "table_contains DIFFICULTY_MAP difficulty_type = Inr True"
    "table_getitem DIFFICULTY_MAP difficulty_type = Inr difficulty"
    "attach_optional exscore
       [(''matchType'', JStr ''sdvxInGameID''),
        (''identifier'', JStr (py_str L mid)),
        (''score'', JInt score),
        (''lamp'', JStr lamp),
        (''difficulty'', JStr difficulty),
        (''timeAchieved'', JInt time_achieved)] = Inr out"
  using assms unfolding convert_play_body_def Let_def
  by (auto simp: exn_bind_eq_Inr split: if_splits)

lemma convert_play_Some_iff:
  "convert_play L play = Inr (Some out) \<longleftrightarrow> convert_play_body L play = Inr (Some out)"
  using catchable_convert_play_body [of L play]
  by (cases "convert_play_body L play") (auto simp: convert_play_def)

lemma eq_int_unique: "eq_int v c \<Longrightarrow> eq_int v k \<longleftrightarrow> k = c"
  by (induction v c rule: eq_int.induct) (auto split: if_splits)

lemma eq_int_hashable: "eq_int v c \<Longrightarrow> hashable v"
  by (induction v c rule: eq_int.induct) auto

lemma find_code: "eq_int v c \<Longrightarrow> find (\<lambda>(k, l). eq_int v k) table = find (\<lambda>(k, l). k = c) table"
  by (induction table) (auto simp: eq_int_unique)

lemma find_key_map_of: "find (\<lambda>(k, l). k = c) table = map_option (Pair c) (map_of table c)"
  by (induction table) auto

lemma table_getitem_code:
  "eq_int v c \<Longrightarrow>
   table_getitem table v = (case map_of table c of None \<Rightarrow> Inl KeyError | Some l \<Rightarrow> Inr l)"
  by (simp add: table_getitem_def eq_int_hashable find_code find_key_map_of split: option.split)

lemma table_contains_code:
  "eq_int v c \<Longrightarrow> table_contains table v = Inr (map_of table c \<noteq> None)"
  by (simp add: table_contains_def eq_int_hashable find_code find_key_map_of)

lemma table_contains_TrueD:
  "table_contains table v = Inr True \<Longrightarrow> \<exists>c l. (c, l) \<in> set table \<and> eq_int v c"
  by (auto simp: table_contains_def find_Some_iff split: if_splits) (metis nth_mem)

lemma attach_optional_eq:
  "attach_optional exscore output =
     Inr (case exscore of
            None \<Rightarrow> output
          | Some e \<Rightarrow>
              if 0 < e then AList.update ''optional'' (JObj [(''exScore'', JInt e)]) output
              else output)"
  by (simp add: attach_optional_def Let_def getitem_def update_conv' split: option.split)

lemma has_code_getitem:
  "has_code play field c \<Longrightarrow> getitem play field = Inr v \<Longrightarrow> eq_int v c"
  by (auto simp: has_code_def getitem_def split: option.splits)

lemma getitem_has_code:
  "getitem play field = Inr v \<Longrightarrow> eq_int v c \<Longrightarrow> has_code play field c"
  by (auto simp: has_code_def getitem_def split: option.splits)

lemma map_of_attach_optional:
  "attach_optional exscore output = Inr out \<Longrightarrow> k \<noteq> ''optional'' \<Longrightarrow> map_of out k = map_of output k"
  by (auto simp: attach_optional_eq update_conv' split: option.splits if_splits)

lemma convert_play_lamp:
  assumes "convert_play L play = Inr (Some out)" and "has_code play ''clear'' c"
    and "map_of CLEAR_TYPE_MAP c = Some l"
  shows "map_of out ''lamp'' = Some (JStr l)"
proof -
  from assms(1) have "convert_play_body L play = Inr (Some out)"
    by (simp add: convert_play_Some_iff)
  then show ?thesis
  proof (cases rule: convert_play_body_SomeE)
    case (1 score_v score exscore mid created_at date time_achieved clear_type lamp
        difficulty_type difficulty)
    from assms(2) 1(8) have c: "eq_int clear_type c"
      by (rule has_code_getitem)
    from 1(10) have "map_of CLEAR_TYPE_MAP c = Some lamp"
      by (simp add: table_getitem_code [OF c] split: option.splits)
    moreover from 1(14) have "map_of out ''lamp'' = Some (JStr lamp)"
      by (simp add: map_of_attach_optional)
    ultimately show ?thesis using assms(3) by simp
  qed
qed

lemma convert_play_difficulty:
  assumes "convert_play L play = Inr (Some out)" and "has_code play ''type'' d"
    and "map_of DIFFICULTY_MAP d = Some m"
  shows "map_of out ''difficulty'' = Some (JStr m)"
proof -
  from assms(1) have "convert_play_body L play = Inr (Some out)"
    by (simp add: convert_play_Some_iff)
  then show ?thesis
  proof (cases rule: convert_play_body_SomeE)
    case (1 score_v score exscore mid created_at date time_achieved clear_type lamp
        difficulty_type difficulty)
    from assms(2) 1(11) have d: "eq_int difficulty_type d"
      by (rule has_code_getitem)
    from 1(13) have "map_of DIFFICULTY_MAP d = Some difficulty"
      by (simp add: table_getitem_code [OF d] split: option.splits)
    moreover from 1(14) have "map_of out ''difficulty'' = Some (JStr difficulty)"
      by (simp add: map_of_attach_optional)
    ultimately show ?thesis using assms(3) by simp
  qed
qed

lemma convert_play_known_codes:
  assumes "convert_play L play = Inr (Some out)"
  shows "(\<exists>c\<in>{1..6}. has_code play ''clear'' c) \<and> (\<exists>d\<in>{0..4}. has_code play ''type'' d)"
proof -
  from assms have "convert_play_body L play = Inr (Some out)"
    by (simp add: convert_play_Some_iff)
  then show ?thesis
  proof (cases rule: convert_play_body_SomeE)
    case (1 score_v score exscore mid created_at date time_achieved clear_type lamp
        difficulty_type difficulty)
    from 1(9) obtain c l where "(c, l) \<in> set CLEAR_TYPE_MAP" "eq_int clear_type c"
      by (blast dest: table_contains_TrueD)
    with 1(8) have "\<exists>c\<in>{1..6}. has_code play ''clear'' c"
      by (auto simp: CLEAR_TYPE_MAP_def intro: getitem_has_code)
    moreover
    from 1(12) obtain d m where "(d, m) \<in> set DIFFICULTY_MAP" "eq_int difficulty_type d"
      by (blast dest: table_contains_TrueD)
    with 1(11) have "\<exists>d\<in>{0..4}. has_code play ''type'' d"
      by (auto simp: DIFFICULTY_MAP_def intro: getitem_has_code)
    ultimately show ?thesis by simp
  qed
qed

lemma convert_play_unknown_code:
  assumes "(\<forall>c\<in>{1..6}. \<not> has_code play ''clear'' c) \<or> (\<forall>d\<in>{0..4}. \<not> has_code play ''type'' d)"
  shows "convert_play L play = Inr None"
proof -
  obtain r where r: "convert_play L play = Inr r"
    using convert_play_never_raises by blast
  show ?thesis
  proof (cases r)
    case None
    with r show ?thesis by simp
  next
    case (Some out)
    with r assms convert_play_known_codes [of L play out] show ?thesis by blast
  qed
qed

lemma convert_play_plain_record:
  assumes "(c, l) \<in> set CLEAR_TYPE_MAP" and "(d, m) \<in> set DIFFICULTY_MAP"
  shows "convert_play L
           [(''score'', JInt s), (''mid'', JStr i), (''clear'', JInt c), (''type'', JInt d),
            (''createdAt'', JObj [(''$$date'', JInt t)])] =
         Inr (Some [(''matchType'', JStr ''sdvxInGameID''), (''identifier'', JStr i),
                    (''score'', JInt s), (''lamp'', JStr l), (''difficulty'', JStr m),
                    (''timeAchieved'', JInt t)])"
proof -
  from assms(1) have 1: "table_contains CLEAR_TYPE_MAP (JInt c) = Inr True"
    "table_getitem CLEAR_TYPE_MAP (JInt c) = Inr l"
    by (auto simp: CLEAR_TYPE_MAP_def table_contains_def table_getitem_def)
  from assms(2) have 2: "table_contains DIFFICULTY_MAP (JInt d) = Inr True"
    "table_getitem DIFFICULTY_MAP (JInt d) = Inr m"
    by (auto simp: DIFFICULTY_MAP_def table_contains_def table_getitem_def)
  show ?thesis
    by (simp add: convert_play_def convert_play_body_def getitem_def dict_get_def
        read_exscore_def attach_optional_eq 1 2)
qed


lemma read_exscore_eq:
  "read_exscore L play =
     (case map_of play ''exscore'' of
        None \<Rightarrow> Inr None
      | Some v \<Rightarrow>
          exn_bind (py_gt0 v) (\<lambda>positive.
            if positive then exn_bind (py_int L v) (\<lambda>e. Inr (Some e)) else Inr None))"
  by (simp add: read_exscore_def dict_get_def getitem_def split: option.split cong: if_cong)

lemma convert_play_optional:
  assumes "convert_play L play = Inr (Some out)"
  shows "\<exists>exscore. read_exscore L play = Inr exscore \<and>
           map_of out ''optional'' =
             (case exscore of
                None \<Rightarrow> None
              | Some e \<Rightarrow> if 0 < e then Some (JObj [(''exScore'', JInt e)]) else None)"
proof -
  from assms have "convert_play_body L play = Inr (Some out)"
    by (simp add: convert_play_Some_iff)
  then show ?thesis
  proof (cases rule: convert_play_body_SomeE)
    case (1 score_v score exscore mid created_at date time_achieved clear_type lamp
        difficulty_type difficulty)
    from 1(14) have "map_of out ''optional'' =
        (case exscore of
           None \<Rightarrow> None
         | Some e \<Rightarrow> if 0 < e then Some (JObj [(''exScore'', JInt e)]) else None)"
      by (auto simp: attach_optional_eq update_conv' split: option.splits)
    with 1(3) show ?thesis by blast
  qed
qed


lemma text_lines_example: "text_lines example_line = [example_line]"
  by (simp add: text_lines_def example_line_def)

lemma convert_play_example:
  "convert_play L example_record =
     Inr (Some [(''matchType'', JStr ''sdvxInGameID''), (''identifier'', JStr ''42''),
                (''score'', JInt 9000000), (''lamp'', JStr ''CLEAR''),
                (''difficulty'', JStr ''NOV''), (''timeAchieved'', JInt 1700000000000)])"
  by (simp add: convert_play_def convert_play_body_def example_record_def getitem_def
      dict_get_def read_exscore_def attach_optional_eq table_contains_def
      table_getitem_def CLEAR_TYPE_MAP_def DIFFICULTY_MAP_def)

lemma filter_user_scores_example:
  "filter_user_scores [example_record] ''U1'' = [example_record]"
  by (simp add: filter_user_scores_def example_record_def dict_get_def)

lemma music_plays_example: "music_plays [JObj example_record] = Inr [example_record]"
  by (simp add: example_record_def dict_get_def)

lemma json_loads_example: "json_loads example_lib example_line = Some (JObj example_record)"
  by (simp add: example_lib_def example_line_def)

lemma load_example_line:
  assumes "json_loads L example_line = Some (JObj example_record)"
    and "files w db_path = Some example_line"
  shows "load_plays_database L w db_path = Inr [example_record]"
proof -
  have "open_read w db_path = Inr [example_line]"
    using assms(2) by (simp add: open_read_def text_lines_example)
  moreover have "parse_lines L [example_line] = Inr [JObj example_record]"
    using assms(1) by simp
  ultimately show ?thesis
    unfolding load_plays_database_def by (simp only: exn_bind_Inr music_plays_example)
qed

lemma convert_play_example_failed:
  "convert_play L (AList.update ''clear'' (JInt 1) example_record) =
     Inr (Some [(''matchType'', JStr ''sdvxInGameID''), (''identifier'', JStr ''42''),
                (''score'', JInt 9000000), (''lamp'', JStr ''FAILED''),
                (''difficulty'', JStr ''NOV''), (''timeAchieved'', JInt 1700000000000)])"
  by (simp add: convert_play_def convert_play_body_def example_record_def getitem_def
      dict_get_def read_exscore_def attach_optional_eq table_contains_def
      table_getitem_def CLEAR_TYPE_MAP_def DIFFICULTY_MAP_def)

lemma convert_play_output_shape:
  assumes "convert_play L play = Inr (Some out)"
  shows "out \<noteq> [] \<and> (\<exists>l. getitem out ''lamp'' = Inr (JStr l))"
proof -
  from assms have "convert_play_body L play = Inr (Some out)"
    by (simp add: convert_play_Some_iff)
  then show ?thesis
  proof (cases rule: convert_play_body_SomeE)
    case (1 score_v score exscore mid created_at date time_achieved clear_type lamp
        difficulty_type difficulty)
    from 1(14) have "map_of out ''lamp'' = Some (JStr lamp)"
      by (simp add: map_of_attach_optional)
    then show ?thesis by (auto simp: getitem_def)
  qed
qed

lemma eq_str_iff: "eq_str v s \<longleftrightarrow> v = JStr s"
  by (cases v) auto

lemma convert_each_step:
  "convert_each L keep (play # rest) acc =
     (case convert_play L play of
        Inr (Some info) \<Rightarrow>
          convert_each L keep rest (if keep \<or> \<not> failed_lamp info then acc @ [info] else acc)
      | _ \<Rightarrow> convert_each L keep rest acc)"
proof -
  obtain r where r: "convert_play L play = Inr r"
    using convert_play_never_raises by blast
  show ?thesis
  proof (cases r)
    case None
    with r show ?thesis by simp
  next
    case (Some info)
    with r convert_play_output_shape [of L play info]
    obtain l where "info \<noteq> []" "getitem info ''lamp'' = Inr (JStr l)" by auto
    moreover from this have "failed_lamp info \<longleftrightarrow> l = ''FAILED''"
      by (auto simp: failed_lamp_def getitem_def split: option.splits)
    ultimately show ?thesis using r Some by simp
  qed
qed

lemma convert_each_eq:
  "convert_each L keep plays acc =
     Inr (acc @ filter (\<lambda>info. keep \<or> \<not> failed_lamp info) (converted L plays))"
proof (induction plays arbitrary: acc)
  case Nil
  show ?case by (simp add: converted_def map_filter_simps)
next
  case (Cons play rest)
  show ?case
    by (simp only: convert_each_step Cons.IH)
      (simp add: converted_def map_filter_simps split: sum.split option.split)
qed

lemma convert_play_None_if_not_Some:
  "(\<And>out. convert_play L play \<noteq> Inr (Some out)) \<Longrightarrow> convert_play L play = Inr None"
  using convert_play_never_raises [of L play] by (metis option.exhaust)

lemma convert_play_reads:
  assumes "convert_play L play = Inr (Some out)"
  shows "\<exists>score_v score mid created_at date time_achieved.
           map_of play ''score'' = Some score_v \<and> py_int L score_v = Inr score \<and>
           map_of play ''mid'' = Some mid \<and>
           map_of play ''createdAt'' = Some created_at \<and>
           subscript created_at ''$$date'' = Inr date \<and> py_int L date = Inr time_achieved \<and>
           (\<exists>exscore. read_exscore L play = Inr exscore)"
proof -
  from assms have "convert_play_body L play = Inr (Some out)"
    by (simp add: convert_play_Some_iff)
  then show ?thesis
    by (cases rule: convert_play_body_SomeE)
      (auto simp: getitem_def split: option.splits)
qed

lemma main_scores_eq:
  "main_scores L cfg w =
     exn_bind (load_plays_database L w (DATABASE_PATH cfg)) (\<lambda>data_points.
       Inr (filter (\<lambda>info. PRESERVE_FAILS cfg \<or> \<not> failed_lamp info)
              (converted L (filter_user_scores data_points (ASPHYXIA_PROFILE_ID cfg)))))"
  by (simp add: main_scores_def convert_each_eq)



lemma eq_str_dict_get: "eq_str (dict_get d k JNull) s \<longleftrightarrow> map_of d k = Some (JStr s)"
  by (simp add: dict_get_def eq_str_iff split: option.split)

lemma parse_lines_Inr: "parse_lines L lines = Inr vs \<longleftrightarrow> map (json_loads L) lines = map Some vs"
proof (induction lines arbitrary: vs)
  case Nil
  show ?case by auto
next
  case (Cons line rest)
  show ?case
    by (cases "json_loads L line"; cases vs) (auto simp: exn_bind_eq_Inr Cons.IH)
qed

lemma parse_lines_Inl:
  "parse_lines L lines = Inl e \<longleftrightarrow> e = JSONDecodeError \<and> (\<exists>line\<in>set lines. json_loads L line = None)"
  by (induction lines) (auto simp: exn_bind_eq_Inl split: option.splits)


lemma music_plays_not_dict:
  "\<exists>v\<in>set vs. \<not> is_dict v \<Longrightarrow> music_plays vs = Inl AttributeError"
proof (induction vs rule: music_plays.induct)
  case (2 play rest)
  then show ?case by simp
qed simp_all



lemma load_plays_database_malformed:
  assumes "files w db_path = Some text" and "\<exists>line\<in>set (text_lines text). json_loads L line = None"
  shows "load_plays_database L w db_path = Inl JSONDecodeError"
proof -
  from assms(2) have "parse_lines L (text_lines text) = Inl JSONDecodeError"
    by (simp add: parse_lines_Inl)
  with assms(1) show ?thesis
    by (simp add: load_plays_database_def open_read_def)
qed

lemma load_plays_database_parsed:
  assumes "files w db_path = Some text" and "map (json_loads L) (text_lines text) = map Some vs"
  shows "load_plays_database L w db_path = music_plays vs"
proof -
  from assms(2) have "parse_lines L (text_lines text) = Inr vs"
    by (simp add: parse_lines_Inr)
  with assms(1) show ?thesis
    by (simp add: load_plays_database_def open_read_def)
qed



lemma filter_user_scores_eq:
  "filter_user_scores scores profile_id =
     filter (\<lambda>point. map_of point ''__refid'' = Some (JStr profile_id) \<and>
                     map_of point ''__s'' = Some (JStr ''plugins_profile'')) scores"
  by (simp add: filter_user_scores_def eq_str_dict_get)


lemma load_plays_database_same_file:
  "files w db_path = files w' db_path \<Longrightarrow>
   load_plays_database L w db_path = load_plays_database L w' db_path"
  by (simp add: load_plays_database_def open_read_def)

lemma main_scores_same_file:
  "files w (DATABASE_PATH cfg) = files w' (DATABASE_PATH cfg) \<Longrightarrow>
   main_scores L cfg w = main_scores L cfg w'"
  by (simp add: main_scores_def load_plays_database_same_file [of w _ w'])

lemma save_results_files:
  "files (save_results L results path w) =
     (if writable w path then (files w)(path \<mapsto> json_dump L results) else files w)"
  by (simp add: save_results_def)

lemma save_results_writable: "writable (save_results L results path w) = writable w"
  by (simp add: save_results_def)

lemma save_results_twice:
  "save_results L results path (save_results L results path w) = save_results L results path w"
  by (simp add: save_results_def)

lemma json_dump_example: "json_dump example_lib v = ''{}''"
  by (simp add: example_lib_def)


lemma st_bind_eval [simp]:
  "st_bind (st_eval r) f s = (case r of Inl e \<Rightarrow> (Inl e, s) | Inr x \<Rightarrow> f x s)"
  by (simp add: st_bind_def st_eval_def split: sum.split)

lemma st_bind_getitem [simp]:
  "st_bind (st_getitem d k) f s = (case getitem (s ! d) k of Inl e \<Rightarrow> (Inl e, s) | Inr x \<Rightarrow> f x s)"
  by (simp add: st_bind_def st_getitem_def split: sum.split)

lemma st_bind_get [simp]: "st_bind (st_get d k dflt) f s = f (dict_get (s ! d) k dflt) s"
  by (simp add: st_bind_def st_get_def)

lemma st_bind_new_dict [simp]: "st_bind (st_new_dict items) f s = f (length s) (s @ [items])"
  by (simp add: st_bind_def st_new_dict_def)

lemma st_bind_setitem [simp]:
  "st_bind (st_setitem d k v) f s = f () (s[d := AList.update k v (s ! d)])"
  by (simp add: st_bind_def st_setitem_def)

lemma st_read_exscore_eq: "st_read_exscore L play s = (read_exscore L (s ! play), s)"
  by (simp add: st_read_exscore_def read_exscore_def exn_bind_def st_eval_def
      split: sum.split)

lemma st_attach_optional_eq:
  "st_attach_optional exscore (length s) (s @ [output]) =
     (Inr (),
      s @ [case exscore of
             None \<Rightarrow> output
           | Some e \<Rightarrow>
               if 0 < e then AList.update ''optional'' (JObj [(''exScore'', JInt e)]) output
               else output])"
  by (simp add: st_attach_optional_def st_eval_def st_setitem_def getitem_def update_conv'
      split: option.split)

lemma st_bind_read_exscore [simp]:
  "st_bind (st_read_exscore L play) f s =
     (case read_exscore L (s ! play) of Inl e \<Rightarrow> (Inl e, s) | Inr x \<Rightarrow> f x s)"
  by (simp add: st_bind_def st_read_exscore_eq split: sum.split)

lemma st_bind_attach_optional [simp]:
  "st_bind (st_attach_optional exscore (length s)) f (s @ [output]) =
     f () (s @ [case exscore of
                  None \<Rightarrow> output
                | Some e \<Rightarrow>
                    if 0 < e then AList.update ''optional'' (JObj [(''exScore'', JInt e)]) output
                    else output])"
  by (simp add: st_bind_def st_attach_optional_eq)

lemma st_convert_play_body_eq:
  "st_convert_play_body L play s =
     (case convert_play_body L (s ! play) of
        Inl e \<Rightarrow> (Inl e, s)
      | Inr None \<Rightarrow> (Inr None, s)
      | Inr (Some out) \<Rightarrow> (Inr (Some (length s)), s @ [out]))"
  unfolding st_convert_play_body_def convert_play_body_def Let_def
  by (simp add: exn_bind_def attach_optional_eq st_eval_def split: sum.split)

lemma st_convert_play_eq:
  "st_convert_play L play s =
     (case convert_play L (s ! play) of
        Inl e \<Rightarrow> (Inl e, s)
      | Inr None \<Rightarrow> (Inr None, s)
      | Inr (Some out) \<Rightarrow> (Inr (Some (length s)), s @ [out]))"
  by (simp add: st_convert_play_def convert_play_def st_convert_play_body_eq
      split: sum.split option.split)


section \<open>The claims\<close>

text \<open>
  C1. For every record, \<open>convert_play\<close> returns and never raises. When it returns a score
  record, a record holding clear code 1, 2, 3, 4, 5 or 6 gets the lamp FAILED, CLEAR,
  EXCESSIVE CLEAR, ULTIMATE CHAIN, PERFECT ULTIMATE CHAIN or MAXXIVE CLEAR, one holding
  difficulty code 0, 1, 2, 3 or 4 gets the difficulty NOV, ADV, EXH, ANY_INF or MXM, and
  the record does hold one clear code of 1..6 and one difficulty code of 0..4. When the
  record holds no clear code of 1..6, or no difficulty code of 0..4, the result is
  \<^verbatim>\<open>None\<close>. Every pair of a clear code and a difficulty code of the two tables does
  convert, to the two labels of the tables. Codes are compared as Python compares
  numbers (\<open>has_code\<close>).
\<close>

theorem convert_play_code_labels:
  "(\<exists>r. convert_play L play = Inr r) \<and>
   (\<forall>out. convert_play L play = Inr (Some out) \<longrightarrow>
      (has_code play ''clear'' 1 \<longrightarrow> map_of out ''lamp'' = Some (JStr ''FAILED'')) \<and>
      (has_code play ''clear'' 2 \<longrightarrow> map_of out ''lamp'' = Some (JStr ''CLEAR'')) \<and>
      (has_code play ''clear'' 3 \<longrightarrow> map_of out ''lamp'' = Some (JStr ''EXCESSIVE CLEAR'')) \<and>
      (has_code play ''clear'' 4 \<longrightarrow> map_of out ''lamp'' = Some (JStr ''ULTIMATE CHAIN'')) \<and>
      (has_code play ''clear'' 5 \<longrightarrow> map_of out ''lamp'' = Some (JStr ''PERFECT ULTIMATE CHAIN'')) \<and>
      (has_code play ''clear'' 6 \<longrightarrow> map_of out ''lamp'' = Some (JStr ''MAXXIVE CLEAR'')) \<and>
      (has_code play ''type'' 0 \<longrightarrow> map_of out ''difficulty'' = Some (JStr ''NOV'')) \<and>
      (has_code play ''type'' 1 \<longrightarrow> map_of out ''difficulty'' = Some (JStr ''ADV'')) \<and>
      (has_code play ''type'' 2 \<longrightarrow> map_of out ''difficulty'' = Some (JStr ''EXH'')) \<and>
      (has_code play ''type'' 3 \<longrightarrow> map_of out ''difficulty'' = Some (JStr ''ANY_INF'')) \<and>
      (has_code play ''type'' 4 \<longrightarrow> map_of out ''difficulty'' = Some (JStr ''MXM'')) \<and>
      (\<exists>c\<in>{1..6}. has_code play ''clear'' c) \<and>
      (\<exists>d\<in>{0..4}. has_code play ''type'' d)) \<and>
   ((\<forall>c\<in>{1..6}. \<not> has_code play ''clear'' c) \<or> (\<forall>d\<in>{0..4}. \<not> has_code play ''type'' d) \<longrightarrow>
      convert_play L play = Inr None) \<and>
   (\<forall>c l d m s i t. (c, l) \<in> set CLEAR_TYPE_MAP \<and> (d, m) \<in> set DIFFICULTY_MAP \<longrightarrow>
      convert_play L
        [(''score'', JInt s), (''mid'', JStr i), (''clear'', JInt c), (''type'', JInt d),
         (''createdAt'', JObj [(''$$date'', JInt t)])] =
      Inr (Some [(''matchType'', JStr ''sdvxInGameID''), (''identifier'', JStr i),
                 (''score'', JInt s), (''lamp'', JStr l), (''difficulty'', JStr m),
                 (''timeAchieved'', JInt t)]))"
proof (intro conjI allI impI)
  show "\<exists>r. convert_play L play = Inr r"
    by (rule convert_play_never_raises)
next
  assume "(\<forall>c\<in>{1..6}. \<not> has_code play ''clear'' c) \<or> (\<forall>d\<in>{0..4}. \<not> has_code play ''type'' d)"
  then show "convert_play L play = Inr None"
    by (rule convert_play_unknown_code)
next
  fix c l d m s i t
  assume "(c, l) \<in> set CLEAR_TYPE_MAP \<and> (d, m) \<in> set DIFFICULTY_MAP"
  then show "convert_play L
        [(''score'', JInt s), (''mid'', JStr i), (''clear'', JInt c), (''type'', JInt d),
         (''createdAt'', JObj [(''$$date'', JInt t)])] =
      Inr (Some [(''matchType'', JStr ''sdvxInGameID''), (''identifier'', JStr i),
                 (''score'', JInt s), (''lamp'', JStr l), (''difficulty'', JStr m),
                 (''timeAchieved'', JInt t)])"
    by (simp add: convert_play_plain_record)
next
  fix out assume "convert_play L play = Inr (Some out)"
  then show "\<exists>c\<in>{1..6}. has_code play ''clear'' c" "\<exists>d\<in>{0..4}. has_code play ''type'' d"
    by (simp_all add: convert_play_known_codes)
qed ((erule (1) convert_play_lamp convert_play_difficulty,
      simp add: CLEAR_TYPE_MAP_def DIFFICULTY_MAP_def)+)

theorem convert_play_code_labels_witness:
  "convert_play example_lib example_record =
     Inr (Some [(''matchType'', JStr ''sdvxInGameID''), (''identifier'', JStr ''42''),
                (''score'', JInt 9000000), (''lamp'', JStr ''CLEAR''),
                (''difficulty'', JStr ''NOV''), (''timeAchieved'', JInt 1700000000000)]) \<and>
   has_code example_record ''clear'' 2 \<and>
   has_code example_record ''type'' 0 \<and>
   (2, ''CLEAR'') \<in> set CLEAR_TYPE_MAP \<and>
   (0, ''NOV'') \<in> set DIFFICULTY_MAP \<and>
   \<not> (\<exists>c\<in>{1..6}. has_code (AList.update ''clear'' (JInt 7) example_record) ''clear'' c) \<and>
   convert_play example_lib (AList.update ''clear'' (JInt 7) example_record) = Inr None \<and>
   \<not> (\<exists>d\<in>{0..4}. has_code (AList.update ''type'' (JInt 5) example_record) ''type'' d) \<and>
   convert_play example_lib (AList.update ''type'' (JInt 5) example_record) = Inr None"
proof -
  have unknown_clear:
    "\<forall>c\<in>{1..6}. \<not> has_code (AList.update ''clear'' (JInt 7) example_record) ''clear'' c"
    by (simp add: has_code_def example_record_def)
  have unknown_type:
    "\<forall>d\<in>{0..4}. \<not> has_code (AList.update ''type'' (JInt 5) example_record) ''type'' d"
    by (simp add: has_code_def example_record_def)
  have converted:
    "convert_play example_lib example_record =
       Inr (Some [(''matchType'', JStr ''sdvxInGameID''), (''identifier'', JStr ''42''),
                  (''score'', JInt 9000000), (''lamp'', JStr ''CLEAR''),
                  (''difficulty'', JStr ''NOV''), (''timeAchieved'', JInt 1700000000000)])"
    by (simp add: convert_play_def convert_play_body_def example_record_def getitem_def
        dict_get_def read_exscore_def attach_optional_eq table_contains_def
        table_getitem_def CLEAR_TYPE_MAP_def DIFFICULTY_MAP_def)
  from convert_play_code_labels [of example_lib "AList.update ''clear'' (JInt 7) example_record"]
    unknown_clear
  have "convert_play example_lib (AList.update ''clear'' (JInt 7) example_record) = Inr None"
    by blast
  moreover
  from convert_play_code_labels [of example_lib "AList.update ''type'' (JInt 5) example_record"]
    unknown_type
  have "convert_play example_lib (AList.update ''type'' (JInt 5) example_record) = Inr None"
    by blast
  moreover have "has_code example_record ''clear'' 2" "has_code example_record ''type'' 0"
    by (simp_all add: has_code_def example_record_def)
  moreover have "(2, ''CLEAR'') \<in> set CLEAR_TYPE_MAP" "(0, ''NOV'') \<in> set DIFFICULTY_MAP"
    by (simp_all add: CLEAR_TYPE_MAP_def DIFFICULTY_MAP_def)
  ultimately show ?thesis
    using converted unknown_clear unknown_type by simp
qed

text \<open>
  C2 (amended). When \<open>convert_play\<close> returns a score record, the record has the optional
  block if and only if the source \<^verbatim>\<open>exscore\<close> is there, is greater than 0, and its
  integer coercion is greater than 0; the block then is exactly \<^verbatim>\<open>{"exScore": e}\<close> for
  the integer coercion \<open>e\<close> of the source value. For an integer source value this is:
  if and only if the value is greater than 0.
\<close>

theorem optional_block_law:
  assumes "convert_play L play = Inr (Some out)"
  shows
    "(map_of out ''optional'' \<noteq> None \<longleftrightarrow>
        (\<exists>v e. map_of play ''exscore'' = Some v \<and> py_gt0 v = Inr True \<and>
               py_int L v = Inr e \<and> 0 < e)) \<and>
     (\<forall>v e. map_of play ''exscore'' = Some v \<and> py_int L v = Inr e \<and>
            map_of out ''optional'' \<noteq> None \<longrightarrow>
            map_of out ''optional'' = Some (JObj [(''exScore'', JInt e)])) \<and>
     (\<forall>i. map_of play ''exscore'' = Some (JInt i) \<longrightarrow>
          (map_of out ''optional'' \<noteq> None \<longleftrightarrow> 0 < i))"
proof -
  from convert_play_optional [OF assms] obtain exscore where
    ex: "read_exscore L play = Inr exscore" and
    opt: "map_of out ''optional'' =
      (case exscore of
         None \<Rightarrow> None
       | Some e \<Rightarrow> if 0 < e then Some (JObj [(''exScore'', JInt e)]) else None)"
    by blast
  show ?thesis
  proof (cases "map_of play ''exscore''")
    case None
    with ex have "exscore = None"
      by (simp add: read_exscore_eq)
    with opt None show ?thesis by simp
  next
    case (Some v)
    with ex obtain positive where pos: "py_gt0 v = Inr positive" and
      rest: "(if positive then exn_bind (py_int L v) (\<lambda>e. Inr (Some e)) else Inr None) = Inr exscore"
      by (auto simp: read_exscore_eq exn_bind_eq_Inr)
    show ?thesis
    proof (cases positive)
      case False
      with rest have "exscore = None" by simp
      with opt Some pos False show ?thesis
        by (cases v rule: py_gt0.cases) auto
    next
      case True
      with rest obtain e where e: "py_int L v = Inr e" "exscore = Some e"
        by (auto simp: exn_bind_eq_Inr)
      with opt Some pos True show ?thesis
        by (cases v rule: py_gt0.cases) auto
    qed
  qed
qed

text \<open>
  The claim as stated fails for a source value strictly between 0 and 1: \<^verbatim>\<open>0.5 > 0\<close>
  holds, \<^verbatim>\<open>int(0.5)\<close> is 0, and the second test \<^verbatim>\<open>exscore > 0\<close> then leaves the
  block out.
\<close>

theorem optional_block_fraction_counterexample:
  "map_of (AList.update ''exscore'' (JFloat (Finite (1 / 2))) example_record) ''exscore'' =
     Some (JFloat (Finite (1 / 2))) \<and>
   py_gt0 (JFloat (Finite (1 / 2))) = Inr True \<and>
   convert_play example_lib (AList.update ''exscore'' (JFloat (Finite (1 / 2))) example_record) =
     Inr (Some [(''matchType'', JStr ''sdvxInGameID''), (''identifier'', JStr ''42''),
                (''score'', JInt 9000000), (''lamp'', JStr ''CLEAR''),
                (''difficulty'', JStr ''NOV''), (''timeAchieved'', JInt 1700000000000)]) \<and>
   map_of [(''matchType'', JStr ''sdvxInGameID''), (''identifier'', JStr ''42''),
           (''score'', JInt 9000000), (''lamp'', JStr ''CLEAR''),
           (''difficulty'', JStr ''NOV''), (''timeAchieved'', JInt 1700000000000)]
     ''optional'' = None"
  by (simp add: convert_play_def convert_play_body_def example_record_def getitem_def
      dict_get_def read_exscore_def attach_optional_eq table_contains_def
      table_getitem_def CLEAR_TYPE_MAP_def DIFFICULTY_MAP_def trunc_rat_def)

theorem optional_block_law_witness:
  "convert_play example_lib (AList.update ''exscore'' (JInt 120) example_record) =
     Inr (Some [(''matchType'', JStr ''sdvxInGameID''), (''identifier'', JStr ''42''),
                (''score'', JInt 9000000), (''lamp'', JStr ''CLEAR''),
                (''difficulty'', JStr ''NOV''), (''timeAchieved'', JInt 1700000000000),
                (''optional'', JObj [(''exScore'', JInt 120)])]) \<and>
   map_of (AList.update ''exscore'' (JInt 120) example_record) ''exscore'' = Some (JInt 120) \<and>
   py_gt0 (JInt 120) = Inr True \<and>
   py_int example_lib (JInt 120) = Inr 120 \<and>
   map_of [(''matchType'', JStr ''sdvxInGameID''), (''identifier'', JStr ''42''),
           (''score'', JInt 9000000), (''lamp'', JStr ''CLEAR''),
           (''difficulty'', JStr ''NOV''), (''timeAchieved'', JInt 1700000000000),
           (''optional'', JObj [(''exScore'', JInt 120)])] ''optional'' =
     Some (JObj [(''exScore'', JInt 120)])"
proof -
  have converted:
    "convert_play example_lib (AList.update ''exscore'' (JInt 120) example_record) =
       Inr (Some [(''matchType'', JStr ''sdvxInGameID''), (''identifier'', JStr ''42''),
                  (''score'', JInt 9000000), (''lamp'', JStr ''CLEAR''),
                  (''difficulty'', JStr ''NOV''), (''timeAchieved'', JInt 1700000000000),
                  (''optional'', JObj [(''exScore'', JInt 120)])])"
    by (simp add: convert_play_def convert_play_body_def example_record_def getitem_def
        dict_get_def read_exscore_def attach_optional_eq table_contains_def
        table_getitem_def CLEAR_TYPE_MAP_def DIFFICULTY_MAP_def)
  have source: "map_of (AList.update ''exscore'' (JInt 120) example_record) ''exscore'' = Some (JInt 120)"
    by (simp add: example_record_def)
  from optional_block_law [OF converted] source
  have "map_of [(''matchType'', JStr ''sdvxInGameID''), (''identifier'', JStr ''42''),
           (''score'', JInt 9000000), (''lamp'', JStr ''CLEAR''),
           (''difficulty'', JStr ''NOV''), (''timeAchieved'', JInt 1700000000000),
           (''optional'', JObj [(''exScore'', JInt 120)])] ''optional'' =
     Some (JObj [(''exScore'', JInt 120)])"
    by simp
  with converted source show ?thesis by simp
qed

text \<open>
  C3. When \<^verbatim>\<open>json.loads\<close> reads the scenario's line as the scenario's record, the
  database file holds this one line and the target owner is U1, then load, filter and
  convert give exactly one score record, with matchType sdvxInGameID, identifier 42,
  score 9000000, lamp CLEAR, difficulty NOV and timeAchieved 1700000000000, and no
  optional block.
\<close>

theorem end_to_end_scenario:
  assumes "json_loads L example_line = Some (JObj example_record)"
    and "files w (DATABASE_PATH cfg) = Some example_line"
    and "ASPHYXIA_PROFILE_ID cfg = ''U1''"
  shows "main_scores L cfg w =
     Inr [[(''matchType'', JStr ''sdvxInGameID''), (''identifier'', JStr ''42''),
           (''score'', JInt 9000000), (''lamp'', JStr ''CLEAR''),
           (''difficulty'', JStr ''NOV''), (''timeAchieved'', JInt 1700000000000)]]"
proof -
  from assms(1,2) have "load_plays_database L w (DATABASE_PATH cfg) = Inr [example_record]"
    by (rule load_example_line)
  then show ?thesis
    using assms(3)
    by (simp add: main_scores_def filter_user_scores_example convert_play_example getitem_def)
qed

theorem end_to_end_scenario_witness:
  "json_loads example_lib example_line = Some (JObj example_record) \<and>
   files \<lparr>files = [''db'' \<mapsto> example_line], writable = (\<lambda>p. True)\<rparr>
     (DATABASE_PATH \<lparr>DATABASE_PATH = ''db'', ASPHYXIA_PROFILE_ID = ''U1'',
        PRESERVE_FAILS = False, OUTPUT_FILE = ''out''\<rparr>) = Some example_line \<and>
   main_scores example_lib
     \<lparr>DATABASE_PATH = ''db'', ASPHYXIA_PROFILE_ID = ''U1'',
        PRESERVE_FAILS = False, OUTPUT_FILE = ''out''\<rparr>
     \<lparr>files = [''db'' \<mapsto> example_line], writable = (\<lambda>p. True)\<rparr> =
     Inr [[(''matchType'', JStr ''sdvxInGameID''), (''identifier'', JStr ''42''),
           (''score'', JInt 9000000), (''lamp'', JStr ''CLEAR''),
           (''difficulty'', JStr ''NOV''), (''timeAchieved'', JInt 1700000000000)]]"
proof -
  have 1: "json_loads example_lib example_line = Some (JObj example_record)"
    by (rule json_loads_example)
  have 2: "files \<lparr>files = [''db'' \<mapsto> example_line], writable = (\<lambda>p. True)\<rparr>
     (DATABASE_PATH \<lparr>DATABASE_PATH = ''db'', ASPHYXIA_PROFILE_ID = ''U1'',
        PRESERVE_FAILS = False, OUTPUT_FILE = ''out''\<rparr>) = Some example_line"
    by simp
  have 3: "ASPHYXIA_PROFILE_ID \<lparr>DATABASE_PATH = ''db'', ASPHYXIA_PROFILE_ID = ''U1'',
        PRESERVE_FAILS = False, OUTPUT_FILE = ''out''\<rparr> = ''U1''"
    by simp
  from end_to_end_scenario [OF 1 2 3] 1 2 show ?thesis by simp
qed

text \<open>
  C4. \<open>convert_play\<close> returns for every record and never raises. Whatever the body of
  its \<^verbatim>\<open>try\<close> block raises is an \<^verbatim>\<open>Exception\<close>, is caught, and makes the result
  \<^verbatim>\<open>None\<close>: so for a record without \<^verbatim>\<open>score\<close>, \<^verbatim>\<open>mid\<close> or \<^verbatim>\<open>createdAt\<close>, for a score, a
  date or an exscore that cannot be coerced or compared, and for a \<^verbatim>\<open>createdAt\<close> that
  has no \<^verbatim>\<open>$$date\<close>. The loop of \<^verbatim>\<open>main\<close> over the plays therefore runs to its end for
  every list of plays.
\<close>

theorem convert_play_catches_every_exception:
  "(\<exists>r. convert_play L play = Inr r) \<and>
   (\<forall>e. convert_play_body L play = Inl e \<longrightarrow> is_Exception e \<and> convert_play L play = Inr None) \<and>
   (map_of play ''score'' = None \<or> map_of play ''mid'' = None \<or> map_of play ''createdAt'' = None
      \<longrightarrow> convert_play L play = Inr None) \<and>
   (\<forall>v e. map_of play ''score'' = Some v \<and> py_int L v = Inl e \<longrightarrow> convert_play L play = Inr None) \<and>
   (\<forall>v e. map_of play ''createdAt'' = Some v \<and> subscript v ''$$date'' = Inl e \<longrightarrow>
      convert_play L play = Inr None) \<and>
   (\<forall>v d e. map_of play ''createdAt'' = Some v \<and> subscript v ''$$date'' = Inr d \<and> py_int L d = Inl e
      \<longrightarrow> convert_play L play = Inr None) \<and>
   (\<forall>v e. map_of play ''exscore'' = Some v \<and> py_gt0 v = Inl e \<longrightarrow> convert_play L play = Inr None) \<and>
   (\<forall>preserve_fails plays score_results.
      \<exists>rs. convert_each L preserve_fails plays score_results = Inr rs)"
proof (intro conjI allI impI)
  show "\<exists>r. convert_play L play = Inr r"
    by (rule convert_play_never_raises)
next
  fix e assume e: "convert_play_body L play = Inl e"
  with catchable_convert_play_body [of L play] show "is_Exception e" by simp
  from e show "convert_play L play = Inr None" by (rule convert_play_caught)
next
  assume "map_of play ''score'' = None \<or> map_of play ''mid'' = None \<or> map_of play ''createdAt'' = None"
  then show "convert_play L play = Inr None"
    by (intro convert_play_None_if_not_Some notI) (auto dest!: convert_play_reads)
next
  fix v e assume "map_of play ''score'' = Some v \<and> py_int L v = Inl e"
  then show "convert_play L play = Inr None"
    by (intro convert_play_None_if_not_Some notI) (auto dest!: convert_play_reads)
next
  fix v e assume "map_of play ''createdAt'' = Some v \<and> subscript v ''$$date'' = Inl e"
  then show "convert_play L play = Inr None"
    by (intro convert_play_None_if_not_Some notI) (auto dest!: convert_play_reads)
next
  fix v d e
  assume "map_of play ''createdAt'' = Some v \<and> subscript v ''$$date'' = Inr d \<and> py_int L d = Inl e"
  then show "convert_play L play = Inr None"
    by (intro convert_play_None_if_not_Some notI) (auto dest!: convert_play_reads)
next
  fix v e assume "map_of play ''exscore'' = Some v \<and> py_gt0 v = Inl e"
  then show "convert_play L play = Inr None"
    by (intro convert_play_None_if_not_Some notI)
      (auto dest!: convert_play_reads simp: read_exscore_eq)
next
  fix preserve_fails plays score_results
  show "\<exists>rs. convert_each L preserve_fails plays score_results = Inr rs"
    by (simp add: convert_each_eq)
qed

theorem convert_play_catches_every_exception_witness:
  "map_of (AList.delete ''score'' example_record) ''score'' = None \<and>
   convert_play_body example_lib (AList.delete ''score'' example_record) = Inl KeyError \<and>
   is_Exception KeyError \<and>
   convert_play example_lib (AList.delete ''score'' example_record) = Inr None \<and>
   map_of (AList.update ''score'' JNull example_record) ''score'' = Some JNull \<and>
   py_int example_lib JNull = Inl TypeError \<and>
   convert_play example_lib (AList.update ''score'' JNull example_record) = Inr None"
proof -
  have 1: "map_of (AList.delete ''score'' example_record) ''score'' = None"
    by (simp add: example_record_def)
  have 2: "convert_play_body example_lib (AList.delete ''score'' example_record) = Inl KeyError"
    by (simp add: convert_play_body_def example_record_def getitem_def)
  have 3: "map_of (AList.update ''score'' JNull example_record) ''score'' = Some JNull"
    by (simp add: example_record_def)
  have 4: "py_int example_lib JNull = Inl TypeError"
    by simp
  from convert_play_catches_every_exception [of example_lib "AList.delete ''score'' example_record"] 2
  have 5: "is_Exception KeyError \<and> convert_play example_lib (AList.delete ''score'' example_record) = Inr None"
    by blast
  from convert_play_catches_every_exception [of example_lib "AList.update ''score'' JNull example_record"] 3 4
  have 6: "convert_play example_lib (AList.update ''score'' JNull example_record) = Inr None"
    by blast
  from 1 2 3 4 5 6 show ?thesis by simp
qed








text \<open>
  C6. For every list of records and every target identifier, \<open>filter_user_scores\<close>
  returns exactly the records whose \<^verbatim>\<open>__refid\<close> is the target identifier and whose
  \<^verbatim>\<open>__s\<close> is \<^verbatim>\<open>plugins_profile\<close>, as a subsequence of its input in the input's order;
  the function is total, and the empty list is a result like any other.
\<close>

theorem filter_user_scores_subsequence:
  "filter_user_scores scores profile_id =
     filter (\<lambda>point. map_of point ''__refid'' = Some (JStr profile_id) \<and>
                     map_of point ''__s'' = Some (JStr ''plugins_profile'')) scores \<and>
   subseq (filter_user_scores scores profile_id) scores \<and>
   (\<forall>point\<in>set (filter_user_scores scores profile_id).
      point \<in> set scores \<and> map_of point ''__refid'' = Some (JStr profile_id) \<and>
      map_of point ''__s'' = Some (JStr ''plugins_profile'')) \<and>
   (\<forall>point\<in>set scores.
      map_of point ''__refid'' = Some (JStr profile_id) \<and>
      map_of point ''__s'' = Some (JStr ''plugins_profile'') \<longrightarrow>
      point \<in> set (filter_user_scores scores profile_id)) \<and>
   filter_user_scores [] profile_id = []"
  by (simp add: filter_user_scores_eq)

theorem filter_user_scores_subsequence_witness:
  "filter_user_scores
     [example_record, AList.update ''__s'' (JStr ''other'') example_record,
      AList.delete ''__refid'' example_record, AList.update ''score'' (JInt 1) example_record]
     ''U1'' =
     [example_record, AList.update ''score'' (JInt 1) example_record] \<and>
   example_record \<in> set [example_record, AList.update ''__s'' (JStr ''other'') example_record,
      AList.delete ''__refid'' example_record, AList.update ''score'' (JInt 1) example_record] \<and>
   map_of example_record ''__refid'' = Some (JStr ''U1'') \<and>
   map_of example_record ''__s'' = Some (JStr ''plugins_profile'') \<and>
   filter_user_scores [example_record] ''U2'' = []"
  using
    filter_user_scores_subsequence
      [of "[example_record, AList.update ''__s'' (JStr ''other'') example_record,
            AList.delete ''__refid'' example_record,
            AList.update ''score'' (JInt 1) example_record]" "''U1''"]
    filter_user_scores_subsequence [of "[example_record]" "''U2''"]
  by (simp add: example_record_def)

text \<open>
  C7. The loop of \<^verbatim>\<open>main\<close> returns the converted score records in the order of the
  plays, all of them when the flag is on and those whose lamp is not FAILED when it is
  off: with the flag off no record of the result has the lamp FAILED, with the flag on
  every converted record is kept, and in both cases the result is a subsequence of the
  converted records. The scores of \<^verbatim>\<open>main\<close> are this list for the loaded plays of the
  user.
\<close>

theorem fail_preservation:
  "convert_each L preserve_fails plays [] =
     Inr (filter (\<lambda>info. preserve_fails \<or> \<not> failed_lamp info) (converted L plays)) \<and>
   (\<exists>rs. convert_each L False plays [] = Inr rs \<and> (\<forall>info\<in>set rs. \<not> failed_lamp info)) \<and>
   convert_each L True plays [] = Inr (converted L plays) \<and>
   (\<exists>rs. convert_each L preserve_fails plays [] = Inr rs \<and> subseq rs (converted L plays)) \<and>
   (\<forall>data_points. load_plays_database L w (DATABASE_PATH cfg) = Inr data_points \<longrightarrow>
      main_scores L cfg w =
        Inr (filter (\<lambda>info. PRESERVE_FAILS cfg \<or> \<not> failed_lamp info)
               (converted L (filter_user_scores data_points (ASPHYXIA_PROFILE_ID cfg)))))"
  by (simp add: convert_each_eq main_scores_eq)

theorem fail_preservation_witness:
  "convert_each example_lib False [AList.update ''clear'' (JInt 1) example_record, example_record] [] =
     Inr [[(''matchType'', JStr ''sdvxInGameID''), (''identifier'', JStr ''42''),
           (''score'', JInt 9000000), (''lamp'', JStr ''CLEAR''),
           (''difficulty'', JStr ''NOV''), (''timeAchieved'', JInt 1700000000000)]] \<and>
   convert_each example_lib True [AList.update ''clear'' (JInt 1) example_record, example_record] [] =
     Inr [[(''matchType'', JStr ''sdvxInGameID''), (''identifier'', JStr ''42''),
           (''score'', JInt 9000000), (''lamp'', JStr ''FAILED''),
           (''difficulty'', JStr ''NOV''), (''timeAchieved'', JInt 1700000000000)],
          [(''matchType'', JStr ''sdvxInGameID''), (''identifier'', JStr ''42''),
           (''score'', JInt 9000000), (''lamp'', JStr ''CLEAR''),
           (''difficulty'', JStr ''NOV''), (''timeAchieved'', JInt 1700000000000)]] \<and>
   load_plays_database example_lib
     \<lparr>files = [''db'' \<mapsto> example_line], writable = (\<lambda>p. True)\<rparr>
     (DATABASE_PATH \<lparr>DATABASE_PATH = ''db'', ASPHYXIA_PROFILE_ID = ''U1'',
        PRESERVE_FAILS = False, OUTPUT_FILE = ''out''\<rparr>) = Inr [example_record] \<and>
   main_scores example_lib
     \<lparr>DATABASE_PATH = ''db'', ASPHYXIA_PROFILE_ID = ''U1'',
        PRESERVE_FAILS = False, OUTPUT_FILE = ''out''\<rparr>
     \<lparr>files = [''db'' \<mapsto> example_line], writable = (\<lambda>p. True)\<rparr> =
     Inr [[(''matchType'', JStr ''sdvxInGameID''), (''identifier'', JStr ''42''),
           (''score'', JInt 9000000), (''lamp'', JStr ''CLEAR''),
           (''difficulty'', JStr ''NOV''), (''timeAchieved'', JInt 1700000000000)]]"
proof -
  have conv:
    "converted example_lib [AList.update ''clear'' (JInt 1) example_record, example_record] =
       [[(''matchType'', JStr ''sdvxInGameID''), (''identifier'', JStr ''42''),
         (''score'', JInt 9000000), (''lamp'', JStr ''FAILED''),
         (''difficulty'', JStr ''NOV''), (''timeAchieved'', JInt 1700000000000)],
        [(''matchType'', JStr ''sdvxInGameID''), (''identifier'', JStr ''42''),
         (''score'', JInt 9000000), (''lamp'', JStr ''CLEAR''),
         (''difficulty'', JStr ''NOV''), (''timeAchieved'', JInt 1700000000000)]]"
    "converted example_lib [example_record] =
       [[(''matchType'', JStr ''sdvxInGameID''), (''identifier'', JStr ''42''),
         (''score'', JInt 9000000), (''lamp'', JStr ''CLEAR''),
         (''difficulty'', JStr ''NOV''), (''timeAchieved'', JInt 1700000000000)]]"
    by (simp_all add: converted_def map_filter_simps convert_play_example convert_play_example_failed)
  have load: "load_plays_database example_lib
     \<lparr>files = [''db'' \<mapsto> example_line], writable = (\<lambda>p. True)\<rparr>
     (DATABASE_PATH \<lparr>DATABASE_PATH = ''db'', ASPHYXIA_PROFILE_ID = ''U1'',
        PRESERVE_FAILS = False, OUTPUT_FILE = ''out''\<rparr>) = Inr [example_record]"
    by (simp add: load_example_line json_loads_example)
  from
    fail_preservation [of example_lib False
      "[AList.update ''clear'' (JInt 1) example_record, example_record]"
      "\<lparr>files = [''db'' \<mapsto> example_line], writable = (\<lambda>p. True)\<rparr>"
      "\<lparr>DATABASE_PATH = ''db'', ASPHYXIA_PROFILE_ID = ''U1'',
        PRESERVE_FAILS = False, OUTPUT_FILE = ''out''\<rparr>"]
    load
  show ?thesis
    by (simp add: conv failed_lamp_def filter_user_scores_example)
qed

text \<open>
  C8. Two runs of \<^verbatim>\<open>main\<close> under the same configuration, in two states of the file
  system that hold the same database file, compute the same scores; if one raises, the
  other raises the same exception; and if both can write the output file, they leave
  the same text in it. In particular, when the database and the output are different
  files, a second run after the first leaves every file as the first run left it.
\<close>

theorem pipeline_deterministic:
  assumes "files w (DATABASE_PATH cfg) = files w' (DATABASE_PATH cfg)"
  shows "main_scores L cfg w' = main_scores L cfg w \<and>
     (\<forall>e. main L cfg w = Inl e \<longrightarrow> main L cfg w' = Inl e) \<and>
     (\<forall>w1. main L cfg w = Inr w1 \<longrightarrow>
        (\<exists>w1'. main L cfg w' = Inr w1' \<and>
           (writable w (OUTPUT_FILE cfg) \<and> writable w' (OUTPUT_FILE cfg) \<longrightarrow>
              files w1' (OUTPUT_FILE cfg) = files w1 (OUTPUT_FILE cfg) \<and>
              files w1 (OUTPUT_FILE cfg) \<noteq> None))) \<and>
     (DATABASE_PATH cfg \<noteq> OUTPUT_FILE cfg \<longrightarrow>
        (\<forall>w1. main L cfg w = Inr w1 \<longrightarrow> main L cfg w1 = Inr w1))"
proof (intro conjI allI impI)
  show same: "main_scores L cfg w' = main_scores L cfg w"
    using assms by (simp add: main_scores_same_file [of w cfg w'])
  {
    fix e assume "main L cfg w = Inl e"
    then show "main L cfg w' = Inl e"
      by (cases "main_scores L cfg w") (simp_all add: main_def same Let_def)
  next
    fix w1 assume w1: "main L cfg w = Inr w1"
    then obtain rs where rs: "main_scores L cfg w = Inr rs"
      by (cases "main_scores L cfg w") (simp_all add: main_def)
    with w1 show "\<exists>w1'. main L cfg w' = Inr w1' \<and>
           (writable w (OUTPUT_FILE cfg) \<and> writable w' (OUTPUT_FILE cfg) \<longrightarrow>
              files w1' (OUTPUT_FILE cfg) = files w1 (OUTPUT_FILE cfg) \<and>
              files w1 (OUTPUT_FILE cfg) \<noteq> None)"
      by (auto simp: main_def same Let_def save_results_files)
  next
    fix w1 assume paths: "DATABASE_PATH cfg \<noteq> OUTPUT_FILE cfg" and w1: "main L cfg w = Inr w1"
    then obtain rs where rs: "main_scores L cfg w = Inr rs"
      by (cases "main_scores L cfg w") (simp_all add: main_def)
    with w1 have w1_eq:
      "w1 = save_results L (JObj [(''meta'', JObj META), (''scores'', JArr (map JObj rs))])
              (OUTPUT_FILE cfg) w"
      by (simp add: main_def Let_def)
    with paths have "files w1 (DATABASE_PATH cfg) = files w (DATABASE_PATH cfg)"
      by (simp add: save_results_files)
    then have "main_scores L cfg w1 = Inr rs"
      using rs by (simp add: main_scores_same_file [of w1 cfg w])
    then show "main L cfg w1 = Inr w1"
      by (simp add: main_def Let_def w1_eq save_results_twice)
  }
qed

theorem pipeline_deterministic_witness:
  "files \<lparr>files = [''db'' \<mapsto> example_line], writable = (\<lambda>p. True)\<rparr>
     (DATABASE_PATH \<lparr>DATABASE_PATH = ''db'', ASPHYXIA_PROFILE_ID = ''U1'',
        PRESERVE_FAILS = True, OUTPUT_FILE = ''out''\<rparr>) =
   files \<lparr>files = [''db'' \<mapsto> example_line, ''out'' \<mapsto> ''old''], writable = (\<lambda>p. True)\<rparr>
     (DATABASE_PATH \<lparr>DATABASE_PATH = ''db'', ASPHYXIA_PROFILE_ID = ''U1'',
        PRESERVE_FAILS = True, OUTPUT_FILE = ''out''\<rparr>) \<and>
   main example_lib
     \<lparr>DATABASE_PATH = ''db'', ASPHYXIA_PROFILE_ID = ''U1'', PRESERVE_FAILS = True,
        OUTPUT_FILE = ''out''\<rparr>
     \<lparr>files = [''db'' \<mapsto> example_line], writable = (\<lambda>p. True)\<rparr> =
     Inr \<lparr>files = [''db'' \<mapsto> example_line, ''out'' \<mapsto> ''{}''], writable = (\<lambda>p. True)\<rparr> \<and>
   main example_lib
     \<lparr>DATABASE_PATH = ''db'', ASPHYXIA_PROFILE_ID = ''U1'', PRESERVE_FAILS = True,
        OUTPUT_FILE = ''out''\<rparr>
     \<lparr>files = [''db'' \<mapsto> example_line, ''out'' \<mapsto> ''old''], writable = (\<lambda>p. True)\<rparr> =
     Inr \<lparr>files = [''db'' \<mapsto> example_line, ''out'' \<mapsto> ''{}''], writable = (\<lambda>p. True)\<rparr> \<and>
   main example_lib
     \<lparr>DATABASE_PATH = ''db'', ASPHYXIA_PROFILE_ID = ''U1'', PRESERVE_FAILS = True,
        OUTPUT_FILE = ''out''\<rparr>
     \<lparr>files = [''db'' \<mapsto> example_line, ''out'' \<mapsto> ''{}''], writable = (\<lambda>p. True)\<rparr> =
     Inr \<lparr>files = [''db'' \<mapsto> example_line, ''out'' \<mapsto> ''{}''], writable = (\<lambda>p. True)\<rparr>"
proof -
  let ?cfg = "\<lparr>DATABASE_PATH = ''db'', ASPHYXIA_PROFILE_ID = ''U1'', PRESERVE_FAILS = True,
        OUTPUT_FILE = ''out''\<rparr>"
  let ?w = "\<lparr>files = [''db'' \<mapsto> example_line], writable = (\<lambda>p. True)\<rparr>"
  let ?w' = "\<lparr>files = [''db'' \<mapsto> example_line, ''out'' \<mapsto> ''old''], writable = (\<lambda>p. True)\<rparr>"
  let ?w1 = "\<lparr>files = [''db'' \<mapsto> example_line, ''out'' \<mapsto> ''{}''], writable = (\<lambda>p. True)\<rparr>"
  have same: "files ?w (DATABASE_PATH ?cfg) = files ?w' (DATABASE_PATH ?cfg)"
    by simp
  have scores: "main_scores example_lib ?cfg ?w =
     Inr [[(''matchType'', JStr ''sdvxInGameID''), (''identifier'', JStr ''42''),
           (''score'', JInt 9000000), (''lamp'', JStr ''CLEAR''),
           (''difficulty'', JStr ''NOV''), (''timeAchieved'', JInt 1700000000000)]]"
    by (simp add: main_scores_def load_example_line json_loads_example
        filter_user_scores_example convert_play_example)
  have first: "main example_lib ?cfg ?w = Inr ?w1"
    by (simp add: main_def scores save_results_def json_dump_example)
  from pipeline_deterministic [OF same, of example_lib] scores
  have "main_scores example_lib ?cfg ?w' =
     Inr [[(''matchType'', JStr ''sdvxInGameID''), (''identifier'', JStr ''42''),
           (''score'', JInt 9000000), (''lamp'', JStr ''CLEAR''),
           (''difficulty'', JStr ''NOV''), (''timeAchieved'', JInt 1700000000000)]]"
    by simp
  then have other: "main example_lib ?cfg ?w' = Inr ?w1"
    by (simp add: main_def save_results_def json_dump_example)
  have paths: "DATABASE_PATH ?cfg \<noteq> OUTPUT_FILE ?cfg"
    by simp
  from pipeline_deterministic [OF same, of example_lib] paths first
  have again: "main example_lib ?cfg ?w1 = Inr ?w1"
    by blast
  from same first other again show ?thesis by simp
qed

text \<open>
  C9. When a line of the database file parses as JSON to a value that is not an
  object, the loader raises, and so \<^verbatim>\<open>main\<close> raises the same exception and writes
  nothing; when moreover every line parses, the exception is the \<^verbatim>\<open>AttributeError\<close> of
  the \<^verbatim>\<open>get\<close> lookup.
\<close>

theorem non_object_line_aborts:
  assumes "files w (DATABASE_PATH cfg) = Some text"
    and "line \<in> set (text_lines text)"
    and "json_loads L line = Some v"
    and "\<not> is_dict v"
  shows "(\<exists>e. load_plays_database L w (DATABASE_PATH cfg) = Inl e \<and>
              main_scores L cfg w = Inl e \<and> main L cfg w = Inl e) \<and>
         ((\<forall>line\<in>set (text_lines text). json_loads L line \<noteq> None) \<longrightarrow>
            load_plays_database L w (DATABASE_PATH cfg) = Inl AttributeError)"
proof (cases "parse_lines L (text_lines text)")
  case (Inl e)
  then have "\<exists>line\<in>set (text_lines text). json_loads L line = None"
    by (simp add: parse_lines_Inl)
  moreover from this assms(1)
  have "load_plays_database L w (DATABASE_PATH cfg) = Inl JSONDecodeError"
    by (intro load_plays_database_malformed)
  ultimately show ?thesis by (auto simp: main_def main_scores_def)
next
  case (Inr vs)
  then have vs: "map (json_loads L) (text_lines text) = map Some vs"
    by (simp add: parse_lines_Inr)
  with assms(2,3) have "Some v \<in> set (map Some vs)"
    by (metis image_eqI list.set_map)
  then have "v \<in> set vs" by auto
  with assms(4) have "music_plays vs = Inl AttributeError"
    by (auto intro: music_plays_not_dict)
  with assms(1) vs have "load_plays_database L w (DATABASE_PATH cfg) = Inl AttributeError"
    by (simp add: load_plays_database_parsed)
  then show ?thesis by (simp add: main_def main_scores_def)
qed

theorem non_object_line_aborts_witness:
  "files \<lparr>files = [''db'' \<mapsto> ''5''], writable = (\<lambda>p. True)\<rparr>
     (DATABASE_PATH \<lparr>DATABASE_PATH = ''db'', ASPHYXIA_PROFILE_ID = ''U1'',
        PRESERVE_FAILS = True, OUTPUT_FILE = ''out''\<rparr>) = Some ''5'' \<and>
   ''5'' \<in> set (text_lines ''5'') \<and>
   json_loads example_lib ''5'' = Some (JInt 5) \<and>
   \<not> is_dict (JInt 5) \<and>
   load_plays_database example_lib \<lparr>files = [''db'' \<mapsto> ''5''], writable = (\<lambda>p. True)\<rparr> ''db'' =
     Inl AttributeError \<and>
   main example_lib
     \<lparr>DATABASE_PATH = ''db'', ASPHYXIA_PROFILE_ID = ''U1'', PRESERVE_FAILS = True,
        OUTPUT_FILE = ''out''\<rparr>
     \<lparr>files = [''db'' \<mapsto> ''5''], writable = (\<lambda>p. True)\<rparr> = Inl AttributeError"
proof -
  have 1: "files \<lparr>files = [''db'' \<mapsto> ''5''], writable = (\<lambda>p. True)\<rparr>
     (DATABASE_PATH \<lparr>DATABASE_PATH = ''db'', ASPHYXIA_PROFILE_ID = ''U1'',
        PRESERVE_FAILS = True, OUTPUT_FILE = ''out''\<rparr>) = Some ''5''"
    by simp
  have 2: "''5'' \<in> set (text_lines ''5'')"
    by (simp add: text_lines_def)
  have 3: "json_loads example_lib ''5'' = Some (JInt 5)"
    by (simp add: example_lib_def)
  have 4: "\<not> is_dict (JInt 5)"
    by simp
  have 5: "\<forall>line\<in>set (text_lines ''5''). json_loads example_lib line \<noteq> None"
    by (simp add: text_lines_def example_lib_def)
  from non_object_line_aborts [OF 1 2 3 4] 5 1 2 3 show ?thesis
    by auto
qed


text \<open>
  C10. Run on a store in which the play is one of the dicts, \<open>convert_play\<close> leaves the
  play's dict as it was, and with it every dict the store held before the call,
  whether it returns a score record or \<^verbatim>\<open>None\<close>. A score record it returns is a new
  dict, at an address the store did not have, and it is the record that
  \<open>convert_play\<close> computes from the play's dict; when it returns \<^verbatim>\<open>None\<close> the store is
  unchanged. It never raises.
\<close>

theorem convert_play_leaves_input:
  assumes "play < length s" and "st_convert_play L play s = (r, s')"
  shows "s' ! play = s ! play \<and>
         take (length s) s' = s \<and>
         (\<forall>output. r = Inr (Some output) \<longrightarrow>
            output = length s \<and> output \<noteq> play \<and> length s' = Suc (length s) \<and>
            convert_play L (s ! play) = Inr (Some (s' ! output))) \<and>
         (r = Inr None \<longrightarrow> s' = s \<and> convert_play L (s ! play) = Inr None) \<and>
         (\<exists>x. r = Inr x)"
proof -
  obtain x where x: "convert_play L (s ! play) = Inr x"
    using convert_play_never_raises by blast
  show ?thesis
  proof (cases x)
    case None
    with x assms(2) show ?thesis
      by (auto simp: st_convert_play_eq)
  next
    case (Some out)
    with x assms(2) have "r = Inr (Some (length s))" "s' = s @ [out]"
      by (simp_all add: st_convert_play_eq)
    with assms(1) x Some show ?thesis
      by (simp add: nth_append)
  qed
qed

theorem convert_play_leaves_input_witness:
  "(1::nat) < length [[], AList.update ''exscore'' (JInt 120) example_record] \<and>
   st_convert_play example_lib 1 [[], AList.update ''exscore'' (JInt 120) example_record] =
     (Inr (Some 2),
      [[], AList.update ''exscore'' (JInt 120) example_record,
       [(''matchType'', JStr ''sdvxInGameID''), (''identifier'', JStr ''42''),
        (''score'', JInt 9000000), (''lamp'', JStr ''CLEAR''),
        (''difficulty'', JStr ''NOV''), (''timeAchieved'', JInt 1700000000000),
        (''optional'', JObj [(''exScore'', JInt 120)])]]) \<and>
   [[], AList.update ''exscore'' (JInt 120) example_record,
    [(''matchType'', JStr ''sdvxInGameID''), (''identifier'', JStr ''42''),
     (''score'', JInt 9000000), (''lamp'', JStr ''CLEAR''),
     (''difficulty'', JStr ''NOV''), (''timeAchieved'', JInt 1700000000000),
     (''optional'', JObj [(''exScore'', JInt 120)])]] ! 1 =
   [[], AList.update ''exscore'' (JInt 120) example_record] ! 1 \<and>
   st_convert_play example_lib 0 [AList.delete ''mid'' example_record] =
     (Inr None, [AList.delete ''mid'' example_record])"
proof -
  have len: "(1::nat) < length [[], AList.update ''exscore'' (JInt 120) example_record]"
    by simp
  have run: "st_convert_play example_lib 1 [[], AList.update ''exscore'' (JInt 120) example_record] =
     (Inr (Some 2),
      [[], AList.update ''exscore'' (JInt 120) example_record,
       [(''matchType'', JStr ''sdvxInGameID''), (''identifier'', JStr ''42''),
        (''score'', JInt 9000000), (''lamp'', JStr ''CLEAR''),
        (''difficulty'', JStr ''NOV''), (''timeAchieved'', JInt 1700000000000),
        (''optional'', JObj [(''exScore'', JInt 120)])]])"
    by (simp add: st_convert_play_eq convert_play_def convert_play_body_def example_record_def
        getitem_def dict_get_def read_exscore_def attach_optional_eq table_contains_def
        table_getitem_def CLEAR_TYPE_MAP_def DIFFICULTY_MAP_def)
  have skip: "st_convert_play example_lib 0 [AList.delete ''mid'' example_record] =
     (Inr None, [AList.delete ''mid'' example_record])"
    by (simp add: st_convert_play_eq convert_play_def convert_play_body_def example_record_def
        getitem_def dict_get_def read_exscore_def)
  from convert_play_leaves_input [OF len run] run skip show ?thesis
    by simp
qed

end
